theory Spec2Isabelle
  imports Complex_Main "HOL-Library.AList"
begin

section \<open>The QuickUMLS wrapper of THERA-IE (\<^verbatim>\<open>utilities/quickumls_wrapper.py\<close>)\<close>

text \<open>
  The script wraps the matcher of the QuickUMLS library behind a command line. The
  library, its index and the Python runtime are not part of the repository: the matcher
  is a parameter of the model, and so is the part of the built-in \<^verbatim>\<open>str\<close> this
  development does not spell out.
\<close>

subsection \<open>Python values\<close>

text \<open>
  The values a concept dictionary of the library can hold at the keys the script reads.
  A float is a finite one, given by its exact rational value (the similarity of the
  library is a score between 0 and 1; NaN and the infinities are outside this model).
  A string is the list of its characters. \<open>PyList\<close> stands for any iterable
  container (list, tuple, set) by the sequence of its elements in iteration order.
\<close>

datatype pyval =
    PyNone
  | PyBool bool
  | PyInt int
  | PyFloat rat
  | PyStr string
  | PyList "pyval list"

text \<open>
  An exception, by its class name and its message \<^verbatim>\<open>str(e)\<close>. \<open>PyException\<close> is
  an instance of \<^verbatim>\<open>Exception\<close>; \<open>PyBaseException\<close> is one that is not
  (\<^verbatim>\<open>KeyboardInterrupt\<close>, \<^verbatim>\<open>SystemExit\<close>, \<^verbatim>\<open>GeneratorExit\<close>), which a
  handler \<^verbatim>\<open>except Exception\<close> does not catch.
\<close>

datatype py_exception =
    PyException (exc_class: string) (exc_message: string)
  | PyBaseException (exc_class: string) (exc_message: string)

text \<open>\<^verbatim>\<open>isinstance(e, Exception)\<close>.\<close>

fun is_Exception :: "py_exception \<Rightarrow> bool" where
  "is_Exception (PyException c msg) = True"
| "is_Exception (PyBaseException c msg) = False"

text \<open>
  \<^verbatim>\<open>try: body except Exception as e: return handler(e)\<close>, for a body that returns
  its value or raises: an instance of \<^verbatim>\<open>Exception\<close> goes to the handler, any other
  exception propagates to the caller.
\<close>

definition try_except_Exception ::
  "py_exception + 'a \<Rightarrow> (py_exception \<Rightarrow> 'a) \<Rightarrow> py_exception + 'a" where
  "try_except_Exception body handler =
     (case body of
        Inl e \<Rightarrow> if is_Exception e then Inr (handler e) else Inl e
      | Inr v \<Rightarrow> Inr v)"

text \<open>\<^verbatim>\<open>isinstance(v, (int, float))\<close>: \<^verbatim>\<open>bool\<close> is a subclass of \<^verbatim>\<open>int\<close>.\<close>

fun is_int_or_float :: "pyval \<Rightarrow> bool" where
  "is_int_or_float (PyBool b) = True"
| "is_int_or_float (PyInt i) = True"
| "is_int_or_float (PyFloat x) = True"
| "is_int_or_float v = False"

definition digit_char :: "nat \<Rightarrow> char" where
  "digit_char d = ''0123456789'' ! (d mod 10)"

fun decimal :: "nat \<Rightarrow> string" where
  "decimal n = (if n < 10 then [digit_char n] else decimal (n div 10) @ [digit_char (n mod 10)])"

declare decimal.simps [simp del]

definition str_int :: "int \<Rightarrow> string" where
  "str_int i = (if i < 0 then ''-'' @ decimal (nat (- i)) else decimal (nat i))"

text \<open>
  \<^verbatim>\<open>str(v)\<close>. The shortest round-trip rendering of a float and the rendering of a
  container (which goes through \<^verbatim>\<open>repr\<close> of its elements) belong to the
  interpreter; they are the parameter \<open>builtin_str\<close>.
\<close>

fun py_str :: "(pyval \<Rightarrow> string) \<Rightarrow> pyval \<Rightarrow> string" where
  "py_str builtin_str PyNone = ''None''"
| "py_str builtin_str (PyBool b) = (if b then ''True'' else ''False'')"
| "py_str builtin_str (PyInt i) = str_int i"
| "py_str builtin_str (PyStr s) = s"
| "py_str builtin_str v = builtin_str v"

definition type_name :: "pyval \<Rightarrow> string" where
  "type_name v =
     (case v of PyNone \<Rightarrow> ''NoneType'' | PyBool b \<Rightarrow> ''bool'' | PyInt i \<Rightarrow> ''int''
      | PyFloat x \<Rightarrow> ''float'' | PyStr s \<Rightarrow> ''str'' | PyList xs \<Rightarrow> ''list'')"

text \<open>
  \<^verbatim>\<open>list(v)\<close>: the elements of a container, the characters of a string, and
  \<^verbatim>\<open>TypeError: 'int' object is not iterable\<close> for a value that is not iterable.
\<close>

definition py_list :: "pyval \<Rightarrow> py_exception + pyval list" where
  "py_list v =
     (case v of
        PyList xs \<Rightarrow> Inr xs
      | PyStr s \<Rightarrow> Inr (map (\<lambda>c. PyStr [c]) s)
      | _ \<Rightarrow> Inl (PyException ''TypeError''
                 ([CHR 0x27] @ type_name v @ [CHR 0x27] @ '' object is not iterable'')))"

subsection \<open>Concepts of the library and records of the wrapper\<close>

text \<open>
  A candidate concept dictionary of the library, at the five keys the script reads:
  \<open>get_cui c\<close> is \<^verbatim>\<open>c.get('cui')\<close>, \<open>None\<close> when the key is absent. The library
  documents \<^verbatim>\<open>similarity\<close> as a float, and the model types it so.
\<close>

record concept =
  get_cui :: "pyval option"
  get_preferred :: "pyval option"
  get_term :: "pyval option"
  get_similarity :: "rat option"
  get_semtypes :: "pyval option"

text \<open>\<^verbatim>\<open>d.get(key, default)\<close>.\<close>

definition dict_get :: "'a option \<Rightarrow> 'a \<Rightarrow> 'a" where
  "dict_get entry dflt = (case entry of None \<Rightarrow> dflt | Some v \<Rightarrow> v)"

text \<open>The dictionary the wrapper builds for a candidate (lines 60-66); \<open>method_tag\<close> is its
  key \<^verbatim>\<open>method\<close>.\<close>

record match_record =
  cui :: pyval
  preferred_name :: pyval
  similarity :: rat
  semtypes :: "pyval list"
  method_tag :: string

text \<open>
  An element of a result list: a match record, or the dictionary
  \<^verbatim>\<open>{"error": message}\<close>.
\<close>

datatype result = Match match_record | ErrorRecord string

text \<open>\<^verbatim>\<open>"error" in result\<close>.\<close>

fun has_error_key :: "result \<Rightarrow> bool" where
  "has_error_key (ErrorRecord msg) = True"
| "has_error_key (Match r) = False"

text \<open>
  \<^verbatim>\<open>matcher.match(term, best_match=b, ignore_syntax=i)\<close>: the groups of candidate
  concepts, or the exception the library raises.
\<close>

type_synonym matcher = "string \<Rightarrow> bool \<Rightarrow> bool \<Rightarrow> py_exception + concept list list"

subsection \<open>\<^verbatim>\<open>query_quickumls\<close>\<close>

text \<open>The body of the inner loop (lines 48-66), up to the record appended to \<^verbatim>\<open>results\<close>.\<close>

definition normalize_concept ::
  "(pyval \<Rightarrow> string) \<Rightarrow> concept \<Rightarrow> py_exception + match_record" where
  "normalize_concept builtin_str c =
     (let cui_v = dict_get (get_cui c) (PyStr '''');
          preferred = dict_get (get_preferred c) (PyStr '''');
          name = (if is_int_or_float preferred
                  then dict_get (get_term c) (PyStr (py_str builtin_str preferred))
                  else PyStr (py_str builtin_str preferred));
          sim = dict_get (get_similarity c) 0
      in case py_list (dict_get (get_semtypes c) (PyList [])) of
           Inl e \<Rightarrow> Inl e
         | Inr sts \<Rightarrow>
             Inr \<lparr>cui = cui_v, preferred_name = name, similarity = sim,
                  semtypes = sts, method_tag = ''quickumls''\<rparr>)"

text \<open>\<^verbatim>\<open>for concept in match\<close>, with \<^verbatim>\<open>results\<close> passed through.\<close>

fun concept_loop ::
  "(pyval \<Rightarrow> string) \<Rightarrow> concept list \<Rightarrow> match_record list \<Rightarrow> py_exception + match_record list"
where
  "concept_loop builtin_str [] results = Inr results"
| "concept_loop builtin_str (c # cs) results =
     (case normalize_concept builtin_str c of
        Inl e \<Rightarrow> Inl e
      | Inr r \<Rightarrow> concept_loop builtin_str cs (results @ [r]))"

text \<open>\<^verbatim>\<open>for match in matches\<close>.\<close>

fun match_loop ::
  "(pyval \<Rightarrow> string) \<Rightarrow> concept list list \<Rightarrow> match_record list \<Rightarrow> py_exception + match_record list"
where
  "match_loop builtin_str [] results = Inr results"
| "match_loop builtin_str (m # ms) results =
     (case concept_loop builtin_str m results of
        Inl e \<Rightarrow> Inl e
      | Inr results' \<Rightarrow> match_loop builtin_str ms results')"

text \<open>
  \<^verbatim>\<open>xs.sort(key=f, reverse=True)\<close>: the list is reversed, sorted stably by the key
  and reversed again, so that records with equal keys keep their order.
\<close>

definition sort_reverse :: "('a \<Rightarrow> 'k::linorder) \<Rightarrow> 'a list \<Rightarrow> 'a list" where
  "sort_reverse f xs = rev (sort_key f (rev xs))"

definition query_failed :: "py_exception \<Rightarrow> result list" where
  "query_failed e = [ErrorRecord (''QuickUMLS query failed: '' @ exc_message e)]"

text \<open>The body of the \<^verbatim>\<open>try\<close> block, lines 43-70.\<close>

definition query_body ::
  "(pyval \<Rightarrow> string) \<Rightarrow> matcher \<Rightarrow> string \<Rightarrow> py_exception + result list" where
  "query_body builtin_str matcher trm =
     (case matcher trm True False of
        Inl e \<Rightarrow> Inl e
      | Inr matches \<Rightarrow>
          (case match_loop builtin_str matches [] of
             Inl e \<Rightarrow> Inl e
           | Inr results \<Rightarrow> Inr (map Match (take 3 (sort_reverse similarity results)))))"

text \<open>
  \<^verbatim>\<open>query_quickumls\<close>: the list it returns, or the exception that leaves it (one
  that is not an instance of \<^verbatim>\<open>Exception\<close>).
\<close>

definition query_quickumls ::
  "(pyval \<Rightarrow> string) \<Rightarrow> matcher \<Rightarrow> string \<Rightarrow> py_exception + result list" where
  "query_quickumls builtin_str matcher trm =
     try_except_Exception (query_body builtin_str matcher trm) query_failed"

subsection \<open>\<^verbatim>\<open>batch_query_quickumls\<close>\<close>

text \<open>
  The dictionary \<^verbatim>\<open>batch_results\<close> is an association list in insertion order;
  \<^verbatim>\<open>batch_results[term] = results\<close> replaces the value of a key that is present
  and appends a new key. The function returns that dictionary, or from its handler the
  dictionary \<^verbatim>\<open>{"error": message}\<close>.
\<close>

datatype batch_output =
    BatchResults "(string \<times> result list) list"
  | BatchError string

text \<open>\<^verbatim>\<open>for term in terms\<close> (lines 80-82), with \<^verbatim>\<open>batch_results\<close> passed through.\<close>

fun batch_loop ::
  "(pyval \<Rightarrow> string) \<Rightarrow> matcher \<Rightarrow> string list \<Rightarrow> (string \<times> result list) list
   \<Rightarrow> py_exception + (string \<times> result list) list"
where
  "batch_loop builtin_str matcher [] batch_results = Inr batch_results"
| "batch_loop builtin_str matcher (trm # terms) batch_results =
     (case query_quickumls builtin_str matcher trm of
        Inl e \<Rightarrow> Inl e
      | Inr results \<Rightarrow>
          batch_loop builtin_str matcher terms (AList.update trm results batch_results))"

definition batch_failed :: "py_exception \<Rightarrow> batch_output" where
  "batch_failed e = BatchError (''Batch QuickUMLS query failed: '' @ exc_message e)"

definition batch_query_quickumls ::
  "(pyval \<Rightarrow> string) \<Rightarrow> matcher \<Rightarrow> string list \<Rightarrow> py_exception + batch_output" where
  "batch_query_quickumls builtin_str matcher terms =
     try_except_Exception
       (case batch_loop builtin_str matcher terms [] of
          Inl e \<Rightarrow> Inl e
        | Inr batch_results \<Rightarrow> Inr (BatchResults batch_results))
       batch_failed"

subsection \<open>The command line: \<^verbatim>\<open>initialize_quickumls\<close> and \<^verbatim>\<open>main\<close>\<close>

text \<open>
  \<^verbatim>\<open>json.dumps({"error": msg})\<close>, with the encoder's defaults: a string is
  quoted, and every character outside the printable ASCII range, the quote and the
  backslash are escaped (characters are code points below 256 here).
\<close>

definition hex_char :: "nat \<Rightarrow> char" where
  "hex_char d = ''0123456789abcdef'' ! (d mod 16)"

definition json_escape :: "char \<Rightarrow> string" where
  "json_escape c =
     (if c = CHR 0x5C then [CHR 0x5C, CHR 0x5C]
      else if c = CHR 0x22 then [CHR 0x5C, CHR 0x22]
      else if c = CHR 0x08 then [CHR 0x5C, CHR ''b'']
      else if c = CHR 0x0C then [CHR 0x5C, CHR ''f'']
      else if c = CHR 0x0A then [CHR 0x5C, CHR ''n'']
      else if c = CHR 0x0D then [CHR 0x5C, CHR ''r'']
      else if c = CHR 0x09 then [CHR 0x5C, CHR ''t'']
      else if 32 \<le> (of_char c :: nat) \<and> (of_char c :: nat) \<le> 126 then [c]
      else [CHR 0x5C, CHR ''u'', CHR ''0'', CHR ''0'',
            hex_char ((of_char c :: nat) div 16), hex_char ((of_char c :: nat) mod 16)])"

definition json_string :: "string \<Rightarrow> string" where
  "json_string s = [CHR 0x22] @ concat (map json_escape s) @ [CHR 0x22]"

definition json_dumps_error :: "string \<Rightarrow> string" where
  "json_dumps_error msg = ''{'' @ json_string ''error'' @ '': '' @ json_string msg @ ''}''"

text \<open>
  What the process writes to standard output, one item for each call of \<^verbatim>\<open>print\<close>.
  The pretty-printed \<^verbatim>\<open>json.dumps(x, indent=2)\<close> of a result list or of a batch
  dictionary is kept as the value it serialises.
\<close>

datatype printed =
    Line string
  | JsonResults "result list"
  | JsonBatch batch_output

text \<open>How the process ends: \<^verbatim>\<open>sys.exit(n)\<close> (0 at the end of \<^verbatim>\<open>main\<close>), or an
  exception no handler catches, which leaves \<^verbatim>\<open>main\<close> and ends the process.\<close>

datatype exit_status = Exit nat | Uncaught py_exception

text \<open>
  What the process meets outside itself: whether \<^verbatim>\<open>from quickumls import QuickUMLS\<close>
  raises, whether the index path exists, what the constructor
  \<^verbatim>\<open>QuickUMLS(index_path, threshold=0.7, window=5)\<close> gives, and what opening and
  reading a text file gives (its decoded content).
\<close>

record environment =
  quickumls_import :: "py_exception option"
  index_exists :: bool
  quickumls_construct :: "py_exception + matcher"
  open_file :: "string \<Rightarrow> py_exception + string"

definition index_path :: string where
  "index_path = ''/users/isarkar/sarkarcode/_data/quickumls/quickumls_index''"

text \<open>
  The handler of lines 36-38, reached by an instance of \<^verbatim>\<open>Exception\<close>: it prints
  the error object and exits with code 1. Any other exception leaves the function.
\<close>

definition initialization_failed :: "py_exception \<Rightarrow> printed list \<times> exit_status" where
  "initialization_failed e =
     (if is_Exception e
      then ([Line (json_dumps_error (''QuickUMLS initialization failed: '' @ exc_message e))],
            Exit 1)
      else ([], Uncaught e))"

text \<open>
  \<^verbatim>\<open>initialize_quickumls\<close>: the matcher, or what was printed and how the process
  ends. \<^verbatim>\<open>sys.exit\<close> raises \<^verbatim>\<open>SystemExit\<close>, which \<^verbatim>\<open>except Exception\<close> does
  not catch, so the exit of line 31 prints nothing more.
\<close>

definition initialize_quickumls ::
  "environment \<Rightarrow> (printed list \<times> exit_status) + matcher" where
  "initialize_quickumls env =
     (case quickumls_import env of
        Some e \<Rightarrow> Inl (initialization_failed e)
      | None \<Rightarrow>
          if \<not> index_exists env
          then Inl ([Line (json_dumps_error (''QuickUMLS index not found at '' @ index_path))],
                    Exit 1)
          else (case quickumls_construct env of
                  Inl e \<Rightarrow> Inl (initialization_failed e)
                | Inr matcher \<Rightarrow> Inr matcher))"

text \<open>
  Reading a text file line by line: universal newlines turn \<^verbatim>\<open>\r\n\<close> and
  \<^verbatim>\<open>\r\<close> into \<^verbatim>\<open>\n\<close>, and each line keeps its \<^verbatim>\<open>\n\<close>.
\<close>

fun universal_newlines :: "string \<Rightarrow> string" where
  "universal_newlines [] = []"
| "universal_newlines [c] = (if c = CHR 0x0D then [CHR 0x0A] else [c])"
| "universal_newlines (c # d # cs) =
     (if c = CHR 0x0D \<and> d = CHR 0x0A then CHR 0x0A # universal_newlines cs
      else if c = CHR 0x0D then CHR 0x0A # universal_newlines (d # cs)
      else c # universal_newlines (d # cs))"

fun split_lines :: "string \<Rightarrow> string \<Rightarrow> string list" where
  "split_lines [] cur = (if cur = [] then [] else [cur])"
| "split_lines (c # cs) cur =
     (if c = CHR 0x0A then (cur @ [c]) # split_lines cs [] else split_lines cs (cur @ [c]))"

definition file_lines :: "string \<Rightarrow> string list" where
  "file_lines content = split_lines (universal_newlines content) []"

text \<open>\<^verbatim>\<open>str.isspace\<close> on a character below 256, and \<^verbatim>\<open>str.strip()\<close>.\<close>

definition py_isspace :: "char \<Rightarrow> bool" where
  "py_isspace c =
     (let n = (of_char c :: nat)
      in (9 \<le> n \<and> n \<le> 13) \<or> (28 \<le> n \<and> n \<le> 32) \<or> n = 133 \<or> n = 160)"

definition strip :: "string \<Rightarrow> string" where
  "strip s = rev (dropWhile py_isspace (rev (dropWhile py_isspace s)))"

text \<open>Line 106: \<^verbatim>\<open>[line.strip() for line in f if line.strip()]\<close>.\<close>

definition read_terms :: "string \<Rightarrow> string list" where
  "read_terms content = [strip line. line \<leftarrow> file_lines content, strip line \<noteq> []]"

text \<open>
  \<^verbatim>\<open>format(x, '.3f')\<close> of a finite float: the exact value is rounded to the nearest
  multiple of 1/1000, a tie to the even one, and the sign of a negative value is kept.
\<close>

definition round_half_even :: "rat \<Rightarrow> int" where
  "round_half_even x =
     (let f = \<lfloor>x\<rfloor>; d = x - of_int f
      in if d < 1 / 2 then f else if 1 / 2 < d then f + 1 else if even f then f else f + 1)"

definition format_3f :: "rat \<Rightarrow> string" where
  "format_3f x =
     (let n = nat (round_half_even (\<bar>x\<bar> * 1000))
      in (if x < 0 then ''-'' else []) @ decimal (n div 1000) @ ''.'' @
         [digit_char (n div 100 mod 10), digit_char (n div 10 mod 10), digit_char (n mod 10)])"

text \<open>
  Lines 122-127, for one element of \<^verbatim>\<open>results\<close>: an f-string field without a
  format is \<^verbatim>\<open>str\<close> of the value.
\<close>

fun simple_lines :: "(pyval \<Rightarrow> string) \<Rightarrow> result \<Rightarrow> string list" where
  "simple_lines builtin_str (Match r) =
     [''CUI: '' @ py_str builtin_str (cui r),
      ''Preferred: '' @ py_str builtin_str (preferred_name r),
      ''Similarity: '' @ format_3f (similarity r),
      ''---'']"
| "simple_lines builtin_str (ErrorRecord msg) = []"

text \<open>The parsed arguments; \<^verbatim>\<open>--output\<close> is one of two choices, \<^verbatim>\<open>json\<close> by default.\<close>

datatype output_format = Json | Simple

record arguments =
  opt_term :: "string option"
  opt_batch_file :: "string option"
  opt_batch_terms :: "string list option"
  opt_output :: output_format

text \<open>\<^verbatim>\<open>if args.x:\<close> holds for an option that was given and is not empty.\<close>

definition given :: "'a list option \<Rightarrow> bool" where
  "given opt = (case opt of None \<Rightarrow> False | Some v \<Rightarrow> v \<noteq> [])"

definition usage_error :: string where
  "usage_error = ''Error: Must provide either --term, --batch-file, or --batch-terms''"

definition main ::
  "(pyval \<Rightarrow> string) \<Rightarrow> environment \<Rightarrow> arguments \<Rightarrow> printed list \<times> exit_status" where
  "main builtin_str env args =
     (case initialize_quickumls env of
        Inl ended \<Rightarrow> ended
      | Inr matcher \<Rightarrow>
          if given (opt_batch_file args) then
            (case open_file env (the (opt_batch_file args)) of
               Inl e \<Rightarrow> ([], Uncaught e)
             | Inr content \<Rightarrow>
                 (case batch_query_quickumls builtin_str matcher (read_terms content) of
                    Inl e \<Rightarrow> ([], Uncaught e)
                  | Inr batch_results \<Rightarrow> ([JsonBatch batch_results], Exit 0)))
          else if given (opt_batch_terms args) then
            (case batch_query_quickumls builtin_str matcher (the (opt_batch_terms args)) of
               Inl e \<Rightarrow> ([], Uncaught e)
             | Inr batch_results \<Rightarrow> ([JsonBatch batch_results], Exit 0))
          else if given (opt_term args) then
            (case query_quickumls builtin_str matcher (the (opt_term args)) of
               Inl e \<Rightarrow> ([], Uncaught e)
             | Inr results \<Rightarrow>
                 if opt_output args = Json then ([JsonResults results], Exit 0)
                 else (map Line (concat (map (simple_lines builtin_str) results)), Exit 0))
          else ([Line usage_error], Exit 1))"

subsection \<open>Observations and sample inputs\<close>

text \<open>A character of the printable ASCII range, which has no line break.\<close>

definition printable :: "char \<Rightarrow> bool" where
  "printable x = (32 \<le> (of_char x :: nat) \<and> (of_char x :: nat) \<le> 126)"

text \<open>The values at the key \<^verbatim>\<open>similarity\<close> of the records of a result list that have one.\<close>

definition similarities :: "result list \<Rightarrow> rat list" where
  "similarities rs = [similarity r. Match r \<leftarrow> rs]"

text \<open>
  Sample inputs for the instances below: a rendering for the values \<open>py_str\<close> leaves to
  the interpreter, candidates as the library returns them, one without the key
  \<^verbatim>\<open>term\<close>, one whose \<^verbatim>\<open>semtypes\<close> is \<^verbatim>\<open>None\<close>, and matchers.
\<close>

definition sample_str :: "pyval \<Rightarrow> string" where
  "sample_str v = ''<object>''"

definition candidate :: "string \<Rightarrow> pyval \<Rightarrow> rat \<Rightarrow> concept" where
  "candidate c p s =
     \<lparr>get_cui = Some (PyStr c), get_preferred = Some p, get_term = Some (PyStr ''fever''),
      get_similarity = Some s, get_semtypes = Some (PyList [PyStr ''T184''])\<rparr>"

definition unnamed_candidate :: concept where
  "unnamed_candidate =
     \<lparr>get_cui = Some (PyStr ''C0015967''), get_preferred = Some (PyInt 1), get_term = None,
      get_similarity = Some 1, get_semtypes = None\<rparr>"

definition broken_candidate :: concept where
  "broken_candidate =
     \<lparr>get_cui = Some (PyStr ''C0018681''), get_preferred = Some (PyInt 1),
      get_term = Some (PyStr ''headache''), get_similarity = Some 1,
      get_semtypes = Some PyNone\<rparr>"

text \<open>
  Four candidates in two groups for \<^verbatim>\<open>fever\<close>, a candidate that cannot be
  normalised for \<^verbatim>\<open>headache\<close>, an exception for \<^verbatim>\<open>ague\<close>, an interrupt for
  \<^verbatim>\<open>stop\<close>, nothing otherwise.
\<close>

definition sample_matcher :: matcher where
  "sample_matcher trm best ignore =
     (if trm = ''fever'' then
        Inr [[candidate ''C0015967'' (PyInt 1) (4 / 5),
              candidate ''C0424755'' (PyStr ''Fever symptoms'') 1],
             [candidate ''C0743841'' (PyInt 0) (9 / 10),
              candidate ''C0085594'' (PyInt 1) (3 / 4)]]
      else if trm = ''headache'' then
        Inr [[candidate ''C0018681'' (PyInt 1) 1, broken_candidate]]
      else if trm = ''ague'' then Inl (PyException ''ValueError'' ''bad input'')
      else if trm = ''stop'' then Inl (PyBaseException ''KeyboardInterrupt'' [])
      else Inr [])"

text \<open>The three best candidates of \<^verbatim>\<open>fever\<close>, as the lookup returns them.\<close>

definition fever_results :: "result list" where
  "fever_results =
     [Match \<lparr>cui = PyStr ''C0424755'', preferred_name = PyStr ''Fever symptoms'',
             similarity = 1, semtypes = [PyStr ''T184''], method_tag = ''quickumls''\<rparr>,
      Match \<lparr>cui = PyStr ''C0743841'', preferred_name = PyStr ''fever'',
             similarity = 9 / 10, semtypes = [PyStr ''T184''], method_tag = ''quickumls''\<rparr>,
      Match \<lparr>cui = PyStr ''C0015967'', preferred_name = PyStr ''fever'',
             similarity = 4 / 5, semtypes = [PyStr ''T184''], method_tag = ''quickumls''\<rparr>]"

text \<open>A matcher that finds a candidate only when it is asked not to ignore syntax, one
  that finds it always, and one that never finds any.\<close>

definition syntax_probe :: matcher where
  "syntax_probe trm best ignore =
     (if ignore then Inr [] else Inr [[candidate ''C0015967'' (PyInt 1) 1]])"

definition eager_matcher :: matcher where
  "eager_matcher trm best ignore = Inr [[candidate ''C0015967'' (PyInt 1) 1]]"

definition silent_matcher :: matcher where
  "silent_matcher trm best ignore = Inr []"

text \<open>An environment where the library loads and the index is there, with one readable
  file; and one where the index is missing.\<close>

definition sample_file :: string where
  "sample_file = ''fever'' @ [CHR 0x0A, CHR 0x0A] @ '' headache '' @ [CHR 0x0A]"

definition sample_env :: environment where
  "sample_env =
     \<lparr>quickumls_import = None, index_exists = True,
      quickumls_construct = Inr sample_matcher,
      open_file = (\<lambda>path. if path = ''terms.txt'' then Inr sample_file
                           else Inl (PyException ''FileNotFoundError''
                                       ''[Errno 2] No such file or directory''))\<rparr>"

definition no_index_env :: environment where
  "no_index_env = sample_env\<lparr>index_exists := False\<rparr>"

text \<open>The index is missing and the library is not installed.\<close>

definition unimportable_env :: environment where
  "unimportable_env =
     no_index_env\<lparr>quickumls_import :=
       Some (PyException ''ModuleNotFoundError'' ''No module named quickumls'')\<rparr>"

text \<open>The index is missing and the import of the library is interrupted.\<close>

definition interrupted_env :: environment where
  "interrupted_env =
     no_index_env\<lparr>quickumls_import := Some (PyBaseException ''KeyboardInterrupt'' [])\<rparr>"

definition sample_args :: arguments where
  "sample_args =
     \<lparr>opt_term = None, opt_batch_file = None, opt_batch_terms = None, opt_output = Json\<rparr>"

section \<open>Properties\<close>

subsection \<open>Loops and sorting\<close>

lemma concept_loop_append:
  "concept_loop bs (xs @ ys) rs =
     (case concept_loop bs xs rs of Inl e \<Rightarrow> Inl e | Inr rs' \<Rightarrow> concept_loop bs ys rs')"
  by (induction xs arbitrary: rs) (auto split: sum.splits)

lemma match_loop_concat: "match_loop bs ms rs = concept_loop bs (concat ms) rs"
  by (induction ms arbitrary: rs) (auto simp: concept_loop_append split: sum.splits)

lemma concept_loop_all_ok:
  "\<forall>c \<in> set cs. \<exists>r. normalize_concept bs c = Inr r \<Longrightarrow> \<exists>rs'. concept_loop bs cs rs = Inr rs'"
  by (induction cs arbitrary: rs) auto

lemma concept_loop_first_failure:
  assumes "\<forall>c' \<in> set pre. \<exists>r. normalize_concept bs c' = Inr r"
    and "normalize_concept bs c = Inl e"
  shows "concept_loop bs (pre @ c # post) rs = Inl e"
proof -
  obtain rs' where "concept_loop bs pre rs = Inr rs'"
    using concept_loop_all_ok [OF assms(1)] by blast
  then show ?thesis
    using assms(2) by (simp add: concept_loop_append)
qed

lemma concept_loop_source:
  "concept_loop bs cs rs = Inr rs' \<Longrightarrow> r \<in> set rs' \<Longrightarrow>
   r \<in> set rs \<or> (\<exists>c \<in> set cs. normalize_concept bs c = Inr r)"
proof (induction cs arbitrary: rs)
  case Nil
  then show ?case by simp
next
  case (Cons c cs)
  then obtain r0 where r0: "normalize_concept bs c = Inr r0"
    by (cases "normalize_concept bs c") auto
  with Cons.prems have "concept_loop bs cs (rs @ [r0]) = Inr rs'" by simp
  from Cons.IH [OF this Cons.prems(2)] r0 show ?case by auto
qed

lemma normalize_concept_raises:
  "normalize_concept bs c = Inl e \<Longrightarrow> is_Exception e"
proof -
  assume "normalize_concept bs c = Inl e"
  then have "py_list (dict_get (get_semtypes c) (PyList [])) = Inl e"
    by (simp add: normalize_concept_def Let_def split: sum.splits)
  then obtain msg where "e = PyException ''TypeError'' msg"
    by (auto simp: py_list_def split: pyval.splits)
  then show ?thesis by simp
qed

lemma concept_loop_raises: "concept_loop bs cs rs = Inl e \<Longrightarrow> is_Exception e"
proof (induction cs arbitrary: rs)
  case Nil
  then show ?case by simp
next
  case (Cons c cs)
  show ?case
  proof (cases "normalize_concept bs c")
    case (Inl e')
    with Cons.prems have "e' = e" by simp
    with Inl show ?thesis by (simp add: normalize_concept_raises)
  next
    case (Inr r)
    with Cons.prems have "concept_loop bs cs (rs @ [r]) = Inl e" by simp
    then show ?thesis by (rule Cons.IH)
  qed
qed

lemma sorted_sort_reverse: "sorted_wrt (\<ge>) (map f (sort_reverse f xs))"
proof -
  have "sorted (map f (sort_key f (rev xs)))" by (rule sorted_sort_key)
  then have "sorted_wrt (\<ge>) (rev (map f (sort_key f (rev xs))))"
    by (simp only: sorted_wrt_rev)
  then show ?thesis by (simp add: sort_reverse_def rev_map)
qed

lemma sorted_take_sort_reverse: "sorted_wrt (\<ge>) (map f (take n (sort_reverse f xs)))"
proof -
  have "sorted_wrt (\<ge>) (take n (map f (sort_reverse f xs)))"
    by (rule sorted_wrt_take) (rule sorted_sort_reverse)
  then show ?thesis by (simp add: take_map)
qed

lemma set_sort_reverse: "set (sort_reverse f xs) = set xs"
  by (simp add: sort_reverse_def)

lemma similarities_map_Match: "similarities (map Match rs) = map similarity rs"
  by (induction rs) (simp_all add: similarities_def)

lemma similarities_query_failed: "similarities (query_failed e) = []"
  by (simp add: similarities_def query_failed_def)

subsection \<open>What the lookup returns and what leaves it\<close>

lemma query_matcher_raises:
  "m t True False = Inl e \<Longrightarrow>
   query_quickumls bs m t = (if is_Exception e then Inr (query_failed e) else Inl e)"
  by (simp add: query_quickumls_def query_body_def try_except_Exception_def)

lemma query_ok:
  "m trm True False = Inr groups \<Longrightarrow> concept_loop bs (concat groups) [] = Inr results \<Longrightarrow>
   query_quickumls bs m trm = Inr (map Match (take 3 (sort_reverse similarity results)))"
  by (simp add: query_quickumls_def query_body_def try_except_Exception_def match_loop_concat)

lemma query_normalization_failure:
  "m trm True False = Inr groups \<Longrightarrow> concept_loop bs (concat groups) [] = Inl e \<Longrightarrow>
   query_quickumls bs m trm = Inr (query_failed e)"
  using concept_loop_raises [of bs "concat groups" "[]" e]
  by (simp add: query_quickumls_def query_body_def try_except_Exception_def match_loop_concat)

lemma query_cases:
  "query_quickumls bs m t = Inr rs \<Longrightarrow>
   (\<exists>e. rs = query_failed e)
   \<or> (\<exists>results. rs = map Match (take 3 (sort_reverse similarity results)))"
proof (cases "m t True False")
  case (Inl e)
  assume "query_quickumls bs m t = Inr rs"
  with Inl query_matcher_raises [of m t e bs] show ?thesis
    by (cases "is_Exception e") auto
next
  case (Inr groups)
  assume q: "query_quickumls bs m t = Inr rs"
  show ?thesis
  proof (cases "concept_loop bs (concat groups) []")
    case (Inl e)
    with Inr query_normalization_failure [of m t groups bs e] q show ?thesis by auto
  next
    case loop: (Inr results)
    with Inr query_ok [of m t groups bs results] q show ?thesis by auto
  qed
qed

lemma query_propagates:
  "query_quickumls bs m t = Inl e \<Longrightarrow> m t True False = Inl e \<and> \<not> is_Exception e"
proof (cases "m t True False")
  case (Inl e')
  assume "query_quickumls bs m t = Inl e"
  with Inl query_matcher_raises [of m t e' bs] show ?thesis
    by (cases "is_Exception e'") auto
next
  case (Inr groups)
  assume q: "query_quickumls bs m t = Inl e"
  show ?thesis
  proof (cases "concept_loop bs (concat groups) []")
    case (Inl e')
    with Inr query_normalization_failure [of m t groups bs e'] q show ?thesis by simp
  next
    case loop: (Inr results)
    with Inr query_ok [of m t groups bs results] q show ?thesis by simp
  qed
qed

lemma query_returns:
  "(\<forall>e. m t True False = Inl e \<longrightarrow> is_Exception e) \<Longrightarrow> \<exists>rs. query_quickumls bs m t = Inr rs"
proof (cases "query_quickumls bs m t")
  case (Inl e)
  assume "\<forall>e. m t True False = Inl e \<longrightarrow> is_Exception e"
  with query_propagates [OF Inl] show ?thesis by blast
next
  case (Inr rs)
  then show ?thesis by blast
qed

lemma query_length: "query_quickumls bs m t = Inr rs \<Longrightarrow> length rs \<le> 3"
  using query_cases [of bs m t rs] by (auto simp: query_failed_def)

lemma query_sorted: "query_quickumls bs m t = Inr rs \<Longrightarrow> sorted_wrt (\<ge>) (similarities rs)"
  using query_cases [of bs m t rs]
  by (auto simp: similarities_query_failed similarities_map_Match sorted_take_sort_reverse)

subsection \<open>The batch dictionary\<close>

lemma set_update_subset: "set (AList.update k v al) \<subseteq> insert (k, v) (set al)"
  by (induction al) auto

lemma batch_loop_values:
  "batch_loop bs m ts acc = Inr d \<Longrightarrow>
   \<forall>(k, rs) \<in> set acc. query_quickumls bs m k = Inr rs \<Longrightarrow>
   \<forall>(k, rs) \<in> set d. query_quickumls bs m k = Inr rs"
proof (induction ts arbitrary: acc)
  case Nil
  then show ?case by simp
next
  case (Cons t ts)
  then obtain rs0 where rs0: "query_quickumls bs m t = Inr rs0"
    by (cases "query_quickumls bs m t") auto
  with Cons.prems(1) have loop: "batch_loop bs m ts (AList.update t rs0 acc) = Inr d" by simp
  have "\<forall>(k, rs) \<in> set (AList.update t rs0 acc). query_quickumls bs m k = Inr rs"
    using Cons.prems(2) rs0 set_update_subset [of t rs0 acc] by auto
  with loop show ?case by (rule Cons.IH)
qed

lemma batch_loop_lookup:
  "batch_loop bs m ts acc = Inr d \<Longrightarrow>
   map_of d k = (if k \<in> set ts then (case query_quickumls bs m k of Inr rs \<Rightarrow> Some rs | Inl e \<Rightarrow> None)
                 else map_of acc k)"
proof (induction ts arbitrary: acc)
  case Nil
  then show ?case by simp
next
  case (Cons t ts)
  then obtain rs0 where rs0: "query_quickumls bs m t = Inr rs0"
    by (cases "query_quickumls bs m t") auto
  with Cons.prems have loop: "batch_loop bs m ts (AList.update t rs0 acc) = Inr d" by simp
  from Cons.IH [OF loop] rs0 show ?case by (auto simp: update_conv')
qed

lemma batch_loop_returns:
  "\<forall>t \<in> set ts. \<exists>rs. query_quickumls bs m t = Inr rs \<Longrightarrow> \<exists>d. batch_loop bs m ts acc = Inr d"
  by (induction ts arbitrary: acc) auto

lemma batch_loop_raises:
  "batch_loop bs m ts acc = Inl e \<Longrightarrow>
   \<not> is_Exception e \<and> (\<exists>t \<in> set ts. query_quickumls bs m t = Inl e)"
proof (induction ts arbitrary: acc)
  case Nil
  then show ?case by simp
next
  case (Cons t ts)
  show ?case
  proof (cases "query_quickumls bs m t")
    case (Inl e')
    with Cons.prems have "e' = e" by simp
    with Inl query_propagates [of bs m t e] show ?thesis by simp
  next
    case (Inr rs0)
    with Cons.prems have "batch_loop bs m ts (AList.update t rs0 acc) = Inl e" by simp
    from Cons.IH [OF this] show ?thesis by simp
  qed
qed

lemma batch_query_unfold:
  "batch_query_quickumls bs m ts =
     (case batch_loop bs m ts [] of Inl e \<Rightarrow> Inl e | Inr d \<Rightarrow> Inr (BatchResults d))"
proof (cases "batch_loop bs m ts []")
  case (Inl e)
  with batch_loop_raises [OF Inl] show ?thesis
    by (simp add: batch_query_quickumls_def try_except_Exception_def)
next
  case (Inr d)
  then show ?thesis
    by (simp add: batch_query_quickumls_def try_except_Exception_def)
qed

lemma batch_query_results:
  "batch_query_quickumls bs m ts = Inr out \<Longrightarrow>
   \<exists>d. out = BatchResults d \<and> batch_loop bs m ts [] = Inr d"
  by (cases "batch_loop bs m ts []") (simp_all add: batch_query_unfold)

lemmas sample_simps = sample_matcher_def candidate_def broken_candidate_def
  unnamed_candidate_def syntax_probe_def eager_matcher_def silent_matcher_def
  query_quickumls_def query_body_def try_except_Exception_def normalize_concept_def
  dict_get_def py_list_def sort_reverse_def query_failed_def type_name_def

subsection \<open>The lookup\<close>

text \<open>
  C1, as amended. The lookup asks the matcher for the best match per span with the
  option \<^verbatim>\<open>ignore_syntax\<close> switched off (line 43 passes
  \<^verbatim>\<open>best_match=True, ignore_syntax=False\<close>): its outcome depends on the matcher only
  through the answer to that request, so two matchers that agree on it give the same
  outcome.
\<close>

theorem query_quickumls_request:
  "m trm True False = m' trm True False \<Longrightarrow>
   query_quickumls bs m trm = query_quickumls bs m' trm"
  by (simp add: query_quickumls_def query_body_def)

text \<open>
  Two matchers that differ on other requests and agree on this one.
\<close>

theorem query_quickumls_request_witness:
  "syntax_probe ''fever'' True False = eager_matcher ''fever'' True False
   \<and> query_quickumls sample_str syntax_probe ''fever''
     = query_quickumls sample_str eager_matcher ''fever''"
  using query_quickumls_request [of syntax_probe "''fever''" eager_matcher sample_str]
  by (simp add: syntax_probe_def eager_matcher_def)

text \<open>
  C1 as stated fails: were the request made with \<^verbatim>\<open>ignore_syntax\<close> enabled, two
  matchers with the same answer to (\<^verbatim>\<open>fever\<close>, best match, ignore syntax) would
  give the same result. These two do not.
\<close>

theorem query_quickumls_ignore_syntax_counterexample:
  "syntax_probe ''fever'' True True = silent_matcher ''fever'' True True
   \<and> query_quickumls sample_str syntax_probe ''fever''
     \<noteq> query_quickumls sample_str silent_matcher ''fever''"
  by (simp add: sample_simps)

lemma batch_values:
  "batch_query_quickumls bs m ts = Inr out \<Longrightarrow>
   \<exists>d. out = BatchResults d \<and> (\<forall>(k, rs) \<in> set d. query_quickumls bs m k = Inr rs)"
proof -
  assume "batch_query_quickumls bs m ts = Inr out"
  then obtain d where d: "out = BatchResults d" "batch_loop bs m ts [] = Inr d"
    using batch_query_results by blast
  from d(2) have "\<forall>(k, rs) \<in> set d. query_quickumls bs m k = Inr rs"
    by (rule batch_loop_values) simp
  with d(1) show ?thesis by blast
qed

text \<open>
  C2. For every matcher and term, the result list the lookup returns has at most 3
  elements and its similarities are in non-increasing order (a list that reports an error
  has one element and no similarity); what a batch returns is a dictionary of result
  lists, and the same holds for every list in it.
\<close>

theorem query_sorted_top3:
  "(query_quickumls bs m trm = Inr rs \<longrightarrow>
      length rs \<le> 3 \<and> sorted_wrt (\<ge>) (similarities rs))
   \<and> (batch_query_quickumls bs m terms = Inr out \<longrightarrow>
        (\<exists>d. out = BatchResults d
           \<and> (\<forall>(k, rs) \<in> set d. length rs \<le> 3 \<and> sorted_wrt (\<ge>) (similarities rs))))"
proof (intro conjI impI)
  assume "query_quickumls bs m trm = Inr rs"
  then show "length rs \<le> 3" by (rule query_length)
next
  assume "query_quickumls bs m trm = Inr rs"
  then show "sorted_wrt (\<ge>) (similarities rs)" by (rule query_sorted)
next
  assume "batch_query_quickumls bs m terms = Inr out"
  then obtain d where d: "out = BatchResults d"
      "\<forall>(k, rs) \<in> set d. query_quickumls bs m k = Inr rs"
    using batch_values by blast
  from d(2) have "\<forall>(k, rs) \<in> set d. length rs \<le> 3 \<and> sorted_wrt (\<ge>) (similarities rs)"
    using query_length query_sorted by fastforce
  with d(1) show "\<exists>d. out = BatchResults d
           \<and> (\<forall>(k, rs) \<in> set d. length rs \<le> 3 \<and> sorted_wrt (\<ge>) (similarities rs))"
    by blast
qed

lemma sample_fever:
  "query_quickumls sample_str sample_matcher ''fever'' = Inr fever_results"
  by (simp add: sample_simps fever_results_def)

lemma sample_ague:
  "query_quickumls sample_str sample_matcher ''ague''
     = Inr [ErrorRecord ''QuickUMLS query failed: bad input'']"
  by (simp add: sample_simps)

lemma sample_stop:
  "query_quickumls sample_str sample_matcher ''stop''
     = Inl (PyBaseException ''KeyboardInterrupt'' [])"
  by (simp add: sample_simps)

lemma sample_cough: "query_quickumls sample_str sample_matcher ''cough'' = Inr []"
  by (simp add: sample_simps)

lemma sample_initialize: "initialize_quickumls sample_env = Inr sample_matcher"
  by (simp add: initialize_quickumls_def sample_env_def)

text \<open>
  Four candidates in two groups give the best three, in order.
\<close>

theorem query_sorted_top3_witness:
  "query_quickumls sample_str sample_matcher ''fever'' = Inr fever_results
   \<and> length fever_results \<le> 3
   \<and> sorted_wrt (\<ge>) (similarities fever_results)
   \<and> similarities fever_results = [1, 9 / 10, 4 / 5]
   \<and> batch_query_quickumls sample_str sample_matcher [''fever'', ''ague'']
       = Inr (BatchResults [(''fever'', fever_results),
                            (''ague'', [ErrorRecord ''QuickUMLS query failed: bad input''])])
   \<and> length [ErrorRecord ''QuickUMLS query failed: bad input''] \<le> 3
   \<and> sorted_wrt (\<ge>) (similarities [ErrorRecord ''QuickUMLS query failed: bad input''])"
proof -
  have batch: "batch_query_quickumls sample_str sample_matcher [''fever'', ''ague'']
       = Inr (BatchResults [(''fever'', fever_results),
                            (''ague'', [ErrorRecord ''QuickUMLS query failed: bad input''])])"
    by (simp add: batch_query_unfold sample_fever sample_ague)
  have sims: "similarities fever_results = [1, 9 / 10, 4 / 5]"
    by (simp add: similarities_def fever_results_def)
  from query_sorted_top3 [of sample_str sample_matcher "''fever''" fever_results
      "[''fever'', ''ague'']"
      "BatchResults [(''fever'', fever_results),
                     (''ague'', [ErrorRecord ''QuickUMLS query failed: bad input''])]"]
    sample_fever batch sims
  show ?thesis by (simp add: similarities_def)
qed

lemma query_match_source:
  assumes "m trm True False = Inr groups" and "query_quickumls bs m trm = Inr rs"
    and "Match r \<in> set rs"
  shows "\<exists>c \<in> set (concat groups). normalize_concept bs c = Inr r"
proof (cases "concept_loop bs (concat groups) []")
  case (Inl e)
  with assms(1) query_normalization_failure [of m trm groups bs e] assms(2,3) show ?thesis
    by (auto simp: query_failed_def)
next
  case (Inr results)
  with assms(1) query_ok [of m trm groups bs results] assms(2,3)
  have "r \<in> set (take 3 (sort_reverse similarity results))"
    by auto
  then have "r \<in> set results"
    using set_take_subset [of 3 "sort_reverse similarity results"]
    by (auto simp: set_sort_reverse)
  with concept_loop_source [OF Inr] show ?thesis by auto
qed

text \<open>
  C3. When normalisation of a candidate yields a record: if the candidate's
  \<^verbatim>\<open>preferred\<close> is numeric (an instance of \<^verbatim>\<open>int\<close>, which includes
  \<^verbatim>\<open>bool\<close>, or of \<^verbatim>\<open>float\<close>), the record's \<^verbatim>\<open>preferred_name\<close> is the
  candidate's \<^verbatim>\<open>term\<close> when that key is present and the stringified number when it
  is absent; if \<^verbatim>\<open>preferred\<close> is not numeric, it is its stringification (the empty
  string when the key is absent). Every match record of a list the lookup returns is the
  normalisation of one of the matcher's candidates.
\<close>

theorem preferred_name_resolution:
  "(normalize_concept bs c = Inr r \<longrightarrow>
      (\<forall>p. get_preferred c = Some p \<and> is_int_or_float p \<longrightarrow>
           (\<forall>t. get_term c = Some t \<longrightarrow> preferred_name r = t) \<and>
           (get_term c = None \<longrightarrow> preferred_name r = PyStr (py_str bs p))) \<and>
      (\<forall>p. get_preferred c = Some p \<and> \<not> is_int_or_float p \<longrightarrow>
           preferred_name r = PyStr (py_str bs p)) \<and>
      (get_preferred c = None \<longrightarrow> preferred_name r = PyStr []))
   \<and> (m trm True False = Inr groups \<and> query_quickumls bs m trm = Inr rs
        \<and> Match r \<in> set rs \<longrightarrow>
        (\<exists>c \<in> set (concat groups). normalize_concept bs c = Inr r))"
proof -
  have "normalize_concept bs c = Inr r \<Longrightarrow>
      preferred_name r =
        (let p = dict_get (get_preferred c) (PyStr []) in
         if is_int_or_float p then dict_get (get_term c) (PyStr (py_str bs p))
         else PyStr (py_str bs p))"
    by (auto simp: normalize_concept_def Let_def split: sum.splits)
  then have "normalize_concept bs c = Inr r \<longrightarrow>
      (\<forall>p. get_preferred c = Some p \<and> is_int_or_float p \<longrightarrow>
           (\<forall>t. get_term c = Some t \<longrightarrow> preferred_name r = t) \<and>
           (get_term c = None \<longrightarrow> preferred_name r = PyStr (py_str bs p))) \<and>
      (\<forall>p. get_preferred c = Some p \<and> \<not> is_int_or_float p \<longrightarrow>
           preferred_name r = PyStr (py_str bs p)) \<and>
      (get_preferred c = None \<longrightarrow> preferred_name r = PyStr [])"
    by (auto simp: dict_get_def)
  then show ?thesis using query_match_source [of m trm groups bs rs r] by blast
qed

text \<open>
  A numeric \<^verbatim>\<open>preferred\<close> without and with a \<^verbatim>\<open>term\<close>, a name, and no
  \<^verbatim>\<open>preferred\<close>.
\<close>

theorem preferred_name_resolution_witness:
  "normalize_concept sample_str unnamed_candidate
     = Inr \<lparr>cui = PyStr ''C0015967'', preferred_name = PyStr ''1'', similarity = 1,
            semtypes = [], method_tag = ''quickumls''\<rparr>
   \<and> get_preferred unnamed_candidate = Some (PyInt 1) \<and> is_int_or_float (PyInt 1)
   \<and> get_term unnamed_candidate = None
   \<and> py_str sample_str (PyInt 1) = ''1''
   \<and> (\<lambda>trm best ignore. Inr [[unnamed_candidate]]) ''fever'' True False
       = (Inr [[unnamed_candidate]] :: py_exception + concept list list)
   \<and> query_quickumls sample_str (\<lambda>trm best ignore. Inr [[unnamed_candidate]]) ''fever''
       = Inr [Match \<lparr>cui = PyStr ''C0015967'', preferred_name = PyStr ''1'', similarity = 1,
                     semtypes = [], method_tag = ''quickumls''\<rparr>]
   \<and> (\<exists>c \<in> set (concat [[unnamed_candidate]]).
         normalize_concept sample_str c
         = Inr \<lparr>cui = PyStr ''C0015967'', preferred_name = PyStr ''1'', similarity = 1,
                 semtypes = [], method_tag = ''quickumls''\<rparr>)
   \<and> normalize_concept sample_str (candidate ''C0015967'' (PyInt 1) 1)
     = Inr \<lparr>cui = PyStr ''C0015967'', preferred_name = PyStr ''fever'', similarity = 1,
            semtypes = [PyStr ''T184''], method_tag = ''quickumls''\<rparr>
   \<and> get_term (candidate ''C0015967'' (PyInt 1) 1) = Some (PyStr ''fever'')
   \<and> normalize_concept sample_str (candidate ''C0424755'' (PyStr ''Fever symptoms'') 1)
     = Inr \<lparr>cui = PyStr ''C0424755'', preferred_name = PyStr ''Fever symptoms'', similarity = 1,
            semtypes = [PyStr ''T184''], method_tag = ''quickumls''\<rparr>
   \<and> \<not> is_int_or_float (PyStr ''Fever symptoms'')
   \<and> get_preferred (unnamed_candidate\<lparr>get_preferred := None\<rparr>) = None
   \<and> normalize_concept sample_str (unnamed_candidate\<lparr>get_preferred := None\<rparr>)
     = Inr \<lparr>cui = PyStr ''C0015967'', preferred_name = PyStr [], similarity = 1,
            semtypes = [], method_tag = ''quickumls''\<rparr>"
  using preferred_name_resolution [where bs = sample_str
      and c = "unnamed_candidate\<lparr>get_preferred := None\<rparr>"
      and r = "\<lparr>cui = PyStr ''C0015967'', preferred_name = PyStr [], similarity = 1,
            semtypes = [], method_tag = ''quickumls''\<rparr>"
      and m = eager_matcher and trm = "''fever''" and rs = "[]"
      and groups = "[[candidate ''C0015967'' (PyInt 1) 1]]"]
    preferred_name_resolution [where bs = sample_str and c = unnamed_candidate
      and r = "\<lparr>cui = PyStr ''C0015967'', preferred_name = PyStr ''1'', similarity = 1,
            semtypes = [], method_tag = ''quickumls''\<rparr>"
      and m = "\<lambda>trm best ignore. Inr [[unnamed_candidate]]" and trm = "''fever''"
      and rs = "[Match \<lparr>cui = PyStr ''C0015967'', preferred_name = PyStr ''1'', similarity = 1,
                     semtypes = [], method_tag = ''quickumls''\<rparr>]"
      and groups = "[[unnamed_candidate]]"]
    preferred_name_resolution [where bs = sample_str and c = "candidate ''C0015967'' (PyInt 1) 1"
      and r = "\<lparr>cui = PyStr ''C0015967'', preferred_name = PyStr ''fever'', similarity = 1,
            semtypes = [PyStr ''T184''], method_tag = ''quickumls''\<rparr>"
      and m = eager_matcher and trm = "''fever''" and rs = "[]"
      and groups = "[[candidate ''C0015967'' (PyInt 1) 1]]"]
  by (simp add: sample_simps str_int_def decimal.simps digit_char_def)

text \<open>
  C6. When the matcher returns no candidate concept (no group, or empty groups only), the
  lookup returns the empty list, not an error record.
\<close>

theorem no_candidates_empty_list:
  "m trm True False = Inr groups \<Longrightarrow> concat groups = [] \<Longrightarrow>
   query_quickumls bs m trm = Inr []"
proof -
  assume groups: "m trm True False = Inr groups" and none: "concat groups = []"
  have "concept_loop bs (concat groups) [] = Inr []"
    by (simp only: none concept_loop.simps)
  with groups
  have "query_quickumls bs m trm = Inr (map Match (take 3 (sort_reverse similarity [])))"
    by (rule query_ok)
  then show ?thesis
    by (simp add: sort_reverse_def)
qed

text \<open>
  Two empty groups.
\<close>

theorem no_candidates_empty_list_witness:
  "(\<lambda>trm best ignore. Inr [[], []]) ''xyzzy'' True False
     = (Inr [[], []] :: py_exception + concept list list)
   \<and> concat [[], [] :: concept list] = []
   \<and> query_quickumls sample_str (\<lambda>trm best ignore. Inr [[], []]) ''xyzzy'' = Inr []"
  using no_candidates_empty_list [of "\<lambda>trm best ignore. Inr [[], []]" "''xyzzy''" "[[], []]"
      sample_str]
  by simp

lemma batch_all_recorded:
  assumes "\<forall>t \<in> set terms. \<forall>e. m t True False = Inl e \<longrightarrow> is_Exception e"
  shows "\<exists>d. batch_query_quickumls bs m terms = Inr (BatchResults d)
           \<and> (\<forall>t \<in> set terms. \<exists>rs. query_quickumls bs m t = Inr rs \<and> map_of d t = Some rs)"
proof -
  have all: "\<forall>t \<in> set terms. \<exists>rs. query_quickumls bs m t = Inr rs"
    using assms query_returns by blast
  then obtain d where d: "batch_loop bs m terms [] = Inr d"
    using batch_loop_returns by blast
  have "\<exists>rs. query_quickumls bs m t = Inr rs \<and> map_of d t = Some rs" if "t \<in> set terms" for t
  proof -
    from all that obtain rs where rs: "query_quickumls bs m t = Inr rs" by blast
    with batch_loop_lookup [OF d, of t] that have "map_of d t = Some rs" by simp
    with rs show ?thesis by blast
  qed
  moreover from d have "batch_query_quickumls bs m terms = Inr (BatchResults d)"
    by (simp add: batch_query_unfold)
  ultimately show ?thesis by blast
qed

lemma batch_loop_returned_all:
  "batch_loop bs m ts acc = Inr d \<Longrightarrow> \<forall>t \<in> set ts. \<exists>rs. query_quickumls bs m t = Inr rs"
proof (induction ts arbitrary: acc)
  case Nil
  then show ?case by simp
next
  case (Cons t ts)
  then obtain rs0 where rs0: "query_quickumls bs m t = Inr rs0"
    by (cases "query_quickumls bs m t") auto
  with Cons.prems have "batch_loop bs m ts (AList.update t rs0 acc) = Inr d" by simp
  from Cons.IH [OF this] rs0 show ?case by simp
qed

lemma batch_interrupted:
  assumes "trm \<in> set terms" and "m trm True False = Inl e" and "\<not> is_Exception e"
  shows "\<exists>e'. batch_query_quickumls bs m terms = Inl e' \<and> \<not> is_Exception e'"
proof (cases "batch_loop bs m terms []")
  case (Inl e')
  with batch_loop_raises [OF Inl] show ?thesis
    by (simp add: batch_query_unfold)
next
  case (Inr d)
  from assms(2,3) have "query_quickumls bs m trm = Inl e"
    by (simp add: query_matcher_raises)
  with batch_loop_returned_all [OF Inr] assms(1) show ?thesis by auto
qed

lemma main_batch_terms:
  "initialize_quickumls env = Inr m \<Longrightarrow> \<not> given (opt_batch_file args) \<Longrightarrow>
   opt_batch_terms args = Some terms \<Longrightarrow> terms \<noteq> [] \<Longrightarrow>
   main bs env args =
     (case batch_query_quickumls bs m terms of
        Inl e \<Rightarrow> ([], Uncaught e)
      | Inr out \<Rightarrow> ([JsonBatch out], Exit 0))"
  by (simp add: main_def given_def)

text \<open>
  C5, as amended. An exception of the matcher that is an instance of
  \<^verbatim>\<open>Exception\<close>, and the exception of the first candidate whose normalisation
  fails (always such an instance), is caught: the lookup returns the one-element list
  \<^verbatim>\<open>[{"error": "QuickUMLS query failed: <message>"}]\<close>. When the matcher raises
  nothing else on the terms of a batch, the batch returns a dictionary that records under
  each term the list its lookup returns, and batch mode over command-line terms (no batch
  file given, a list of terms that is not empty), after a successful initialisation,
  prints that dictionary and exits with code 0. An exception of
  the matcher that is not an instance of \<^verbatim>\<open>Exception\<close> is not caught: it leaves the
  lookup, and a batch with such a term ends with an exception of that kind and no
  dictionary.
\<close>

theorem query_errors_are_caught:
  "(m trm True False = Inl e \<and> is_Exception e \<longrightarrow>
      query_quickumls bs m trm
        = Inr [ErrorRecord (''QuickUMLS query failed: '' @ exc_message e)])
   \<and> (m trm True False = Inr groups \<and> concat groups = pre @ c # post
        \<and> (\<forall>c' \<in> set pre. \<exists>r. normalize_concept bs c' = Inr r)
        \<and> normalize_concept bs c = Inl e \<longrightarrow>
      is_Exception e
      \<and> query_quickumls bs m trm
          = Inr [ErrorRecord (''QuickUMLS query failed: '' @ exc_message e)])
   \<and> ((\<forall>t \<in> set terms. \<forall>e. m t True False = Inl e \<longrightarrow> is_Exception e) \<longrightarrow>
        (\<exists>d. batch_query_quickumls bs m terms = Inr (BatchResults d)
           \<and> (\<forall>t \<in> set terms. \<exists>rs. query_quickumls bs m t = Inr rs \<and> map_of d t = Some rs)
           \<and> (initialize_quickumls env = Inr m \<and> \<not> given (opt_batch_file args)
                \<and> opt_batch_terms args = Some terms \<and> terms \<noteq> [] \<longrightarrow>
              main bs env args = ([JsonBatch (BatchResults d)], Exit 0))))
   \<and> (m trm True False = Inl e \<and> \<not> is_Exception e \<longrightarrow>
        query_quickumls bs m trm = Inl e
        \<and> (trm \<in> set terms \<longrightarrow>
             (\<exists>e'. batch_query_quickumls bs m terms = Inl e' \<and> \<not> is_Exception e')))"
proof (intro conjI impI)
  show "query_quickumls bs m trm
        = Inr [ErrorRecord (''QuickUMLS query failed: '' @ exc_message e)]"
    if "m trm True False = Inl e \<and> is_Exception e"
    using that by (simp add: query_matcher_raises query_failed_def)
next
  assume h: "m trm True False = Inr groups \<and> concat groups = pre @ c # post
        \<and> (\<forall>c' \<in> set pre. \<exists>r. normalize_concept bs c' = Inr r)
        \<and> normalize_concept bs c = Inl e"
  then have "normalize_concept bs c = Inl e" by simp
  then show "is_Exception e" by (rule normalize_concept_raises)
  from h have "concept_loop bs (concat groups) [] = Inl e"
    using concept_loop_first_failure [of pre bs c e post "[]"] by simp
  with h show "query_quickumls bs m trm
          = Inr [ErrorRecord (''QuickUMLS query failed: '' @ exc_message e)]"
    using query_normalization_failure [of m trm groups bs e] by (simp add: query_failed_def)
next
  assume "\<forall>t \<in> set terms. \<forall>e. m t True False = Inl e \<longrightarrow> is_Exception e"
  then obtain d where d: "batch_query_quickumls bs m terms = Inr (BatchResults d)"
      "\<forall>t \<in> set terms. \<exists>rs. query_quickumls bs m t = Inr rs \<and> map_of d t = Some rs"
    using batch_all_recorded [of terms m bs] by blast
  have "main bs env args = ([JsonBatch (BatchResults d)], Exit 0)"
    if "initialize_quickumls env = Inr m \<and> \<not> given (opt_batch_file args)
                \<and> opt_batch_terms args = Some terms \<and> terms \<noteq> []"
    using that d(1) main_batch_terms [of env m args terms bs] by simp
  with d show "\<exists>d. batch_query_quickumls bs m terms = Inr (BatchResults d)
           \<and> (\<forall>t \<in> set terms. \<exists>rs. query_quickumls bs m t = Inr rs \<and> map_of d t = Some rs)
           \<and> (initialize_quickumls env = Inr m \<and> \<not> given (opt_batch_file args)
                \<and> opt_batch_terms args = Some terms \<and> terms \<noteq> [] \<longrightarrow>
              main bs env args = ([JsonBatch (BatchResults d)], Exit 0))"
    by blast
next
  show "query_quickumls bs m trm = Inl e" if "m trm True False = Inl e \<and> \<not> is_Exception e"
    using that by (simp add: query_matcher_raises)
next
  show "\<exists>e'. batch_query_quickumls bs m terms = Inl e' \<and> \<not> is_Exception e'"
    if "m trm True False = Inl e \<and> \<not> is_Exception e" "trm \<in> set terms"
    using that batch_interrupted [of trm terms m e bs] by blast
qed

lemma sample_headache:
  "query_quickumls sample_str sample_matcher ''headache''
     = Inr [ErrorRecord (''QuickUMLS query failed: '' @ [CHR 0x27] @ ''NoneType'' @ [CHR 0x27]
                           @ '' object is not iterable'')]"
  by (simp add: sample_simps)

text \<open>
  The matcher raises for \<^verbatim>\<open>ague\<close>, a candidate of \<^verbatim>\<open>headache\<close> cannot be
  normalised, and \<^verbatim>\<open>cough\<close>, which comes after both, is still recorded; an
  interrupt at \<^verbatim>\<open>stop\<close> ends the batch.
\<close>

theorem query_errors_are_caught_witness:
  "sample_matcher ''ague'' True False = Inl (PyException ''ValueError'' ''bad input'')
   \<and> is_Exception (PyException ''ValueError'' ''bad input'')
   \<and> query_quickumls sample_str sample_matcher ''ague''
       = Inr [ErrorRecord ''QuickUMLS query failed: bad input'']
   \<and> sample_matcher ''headache'' True False
       = Inr [[candidate ''C0018681'' (PyInt 1) 1, broken_candidate]]
   \<and> concat [[candidate ''C0018681'' (PyInt 1) 1, broken_candidate]]
       = [candidate ''C0018681'' (PyInt 1) 1] @ broken_candidate # []
   \<and> (\<exists>r. normalize_concept sample_str (candidate ''C0018681'' (PyInt 1) 1) = Inr r)
   \<and> normalize_concept sample_str broken_candidate
       = Inl (PyException ''TypeError''
                ([CHR 0x27] @ ''NoneType'' @ [CHR 0x27] @ '' object is not iterable''))
   \<and> query_quickumls sample_str sample_matcher ''headache''
       = Inr [ErrorRecord (''QuickUMLS query failed: '' @ [CHR 0x27] @ ''NoneType'' @ [CHR 0x27]
                             @ '' object is not iterable'')]
   \<and> batch_query_quickumls sample_str sample_matcher [''ague'', ''headache'', ''cough'']
       = Inr (BatchResults
           [(''ague'', [ErrorRecord ''QuickUMLS query failed: bad input'']),
            (''headache'',
             [ErrorRecord (''QuickUMLS query failed: '' @ [CHR 0x27] @ ''NoneType'' @ [CHR 0x27]
                             @ '' object is not iterable'')]),
            (''cough'', [])])
   \<and> initialize_quickumls sample_env = Inr sample_matcher
   \<and> main sample_str sample_env
        (sample_args\<lparr>opt_batch_terms := Some [''ague'', ''headache'', ''cough'']\<rparr>)
       = ([JsonBatch (BatchResults
           [(''ague'', [ErrorRecord ''QuickUMLS query failed: bad input'']),
            (''headache'',
             [ErrorRecord (''QuickUMLS query failed: '' @ [CHR 0x27] @ ''NoneType'' @ [CHR 0x27]
                             @ '' object is not iterable'')]),
            (''cough'', [])])], Exit 0)
   \<and> sample_matcher ''stop'' True False = Inl (PyBaseException ''KeyboardInterrupt'' [])
   \<and> \<not> is_Exception (PyBaseException ''KeyboardInterrupt'' [])
   \<and> query_quickumls sample_str sample_matcher ''stop''
       = Inl (PyBaseException ''KeyboardInterrupt'' [])
   \<and> ''stop'' \<in> set [''ague'', ''stop'', ''cough'']
   \<and> batch_query_quickumls sample_str sample_matcher [''ague'', ''stop'', ''cough'']
       = Inl (PyBaseException ''KeyboardInterrupt'' [])"
proof -
  let ?terms = "[''ague'', ''headache'', ''cough'']"
  let ?args = "sample_args\<lparr>opt_batch_terms := Some ?terms\<rparr>"
  have caught: "\<forall>t \<in> set ?terms. \<forall>e. sample_matcher t True False = Inl e \<longrightarrow> is_Exception e"
    by (auto simp: sample_matcher_def)
  have mode: "\<not> given (opt_batch_file ?args)" "opt_batch_terms ?args = Some ?terms" "?terms \<noteq> []"
    by (simp_all add: sample_args_def given_def)
  have batch: "batch_query_quickumls sample_str sample_matcher ?terms
       = Inr (BatchResults
           [(''ague'', [ErrorRecord ''QuickUMLS query failed: bad input'']),
            (''headache'',
             [ErrorRecord (''QuickUMLS query failed: '' @ [CHR 0x27] @ ''NoneType'' @ [CHR 0x27]
                             @ '' object is not iterable'')]),
            (''cough'', [])])"
    by (simp add: batch_query_unfold sample_ague sample_headache sample_cough)
  have stopped: "batch_query_quickumls sample_str sample_matcher [''ague'', ''stop'', ''cough'']
       = Inl (PyBaseException ''KeyboardInterrupt'' [])"
    by (simp add: batch_query_unfold sample_ague sample_stop)
  note first = query_errors_are_caught [where m = sample_matcher and trm = "''ague''"
      and e = "PyException ''ValueError'' ''bad input''" and bs = sample_str
      and groups = "[]" and pre = "[]" and c = broken_candidate and post = "[]"
      and terms = ?terms and env = sample_env and args = ?args]
  note second = query_errors_are_caught [where m = sample_matcher and trm = "''headache''"
      and e = "PyException ''TypeError''
                ([CHR 0x27] @ ''NoneType'' @ [CHR 0x27] @ '' object is not iterable'')"
      and bs = sample_str
      and groups = "[[candidate ''C0018681'' (PyInt 1) 1, broken_candidate]]"
      and pre = "[candidate ''C0018681'' (PyInt 1) 1]" and c = broken_candidate and post = "[]"
      and terms = ?terms and env = sample_env and args = ?args]
  note third = query_errors_are_caught [where m = sample_matcher and trm = "''stop''"
      and e = "PyBaseException ''KeyboardInterrupt'' []" and bs = sample_str
      and groups = "[]" and pre = "[]" and c = broken_candidate and post = "[]"
      and terms = "[''ague'', ''stop'', ''cough'']" and env = sample_env and args = ?args]
  from first caught mode sample_initialize batch
  have run: "main sample_str sample_env ?args
       = ([JsonBatch (BatchResults
           [(''ague'', [ErrorRecord ''QuickUMLS query failed: bad input'']),
            (''headache'',
             [ErrorRecord (''QuickUMLS query failed: '' @ [CHR 0x27] @ ''NoneType'' @ [CHR 0x27]
                             @ '' object is not iterable'')]),
            (''cough'', [])])], Exit 0)"
    by auto
  have facts: "sample_matcher ''ague'' True False = Inl (PyException ''ValueError'' ''bad input'')"
    "sample_matcher ''headache'' True False
       = Inr [[candidate ''C0018681'' (PyInt 1) 1, broken_candidate]]"
    "\<exists>r. normalize_concept sample_str (candidate ''C0018681'' (PyInt 1) 1) = Inr r"
    "normalize_concept sample_str broken_candidate
       = Inl (PyException ''TypeError''
                ([CHR 0x27] @ ''NoneType'' @ [CHR 0x27] @ '' object is not iterable''))"
    "sample_matcher ''stop'' True False = Inl (PyBaseException ''KeyboardInterrupt'' [])"
    by (simp_all add: sample_simps)
  from second third facts sample_ague sample_headache sample_stop batch stopped run
    sample_initialize
  show ?thesis by simp
qed

text \<open>
  C5 as stated fails for an exception that is not an instance of \<^verbatim>\<open>Exception\<close>:
  a \<^verbatim>\<open>KeyboardInterrupt\<close> of the matcher is not turned into an error record, and in
  batch mode it ends the process before the remaining term is looked up.
\<close>

theorem interrupted_lookup_counterexample:
  "sample_matcher ''stop'' True False = Inl (PyBaseException ''KeyboardInterrupt'' [])
   \<and> query_quickumls sample_str sample_matcher ''stop''
       = Inl (PyBaseException ''KeyboardInterrupt'' [])
   \<and> initialize_quickumls sample_env = Inr sample_matcher
   \<and> main sample_str sample_env (sample_args\<lparr>opt_batch_terms := Some [''stop'', ''fever'']\<rparr>)
       = ([], Uncaught (PyBaseException ''KeyboardInterrupt'' []))"
proof -
  have "batch_query_quickumls sample_str sample_matcher [''stop'', ''fever'']
       = Inl (PyBaseException ''KeyboardInterrupt'' [])"
    by (simp add: batch_query_unfold sample_stop)
  then have "main sample_str sample_env
         (sample_args\<lparr>opt_batch_terms := Some [''stop'', ''fever'']\<rparr>)
       = ([], Uncaught (PyBaseException ''KeyboardInterrupt'' []))"
    using main_batch_terms [of sample_env sample_matcher
        "sample_args\<lparr>opt_batch_terms := Some [''stop'', ''fever'']\<rparr>"
        "[''stop'', ''fever'']" sample_str]
    by (simp add: sample_initialize sample_args_def given_def)
  with sample_stop sample_initialize show ?thesis
    by (simp add: sample_matcher_def)
qed

subsection \<open>Rendering\<close>

lemma digit_char_digit: "digit_char d \<in> set ''0123456789''"
  unfolding digit_char_def by (rule nth_mem) simp

lemma hex_char_hex: "hex_char d \<in> set ''0123456789abcdef''"
  unfolding hex_char_def by (rule nth_mem) simp

lemma decimal_digits: "set (decimal n) \<subseteq> set ''0123456789''"
proof (induction n rule: decimal.induct)
  case (1 n)
  show ?case
  proof (cases "n < 10")
    case True
    then show ?thesis
      using digit_char_digit [of n] by (subst decimal.simps) simp
  next
    case False
    then show ?thesis
      using "1.IH" digit_char_digit [of "n mod 10"] by (subst decimal.simps) simp
  qed
qed

lemma decimal_no_point: "CHR ''.'' \<notin> set (decimal n)"
  using decimal_digits [of n] by auto

lemma hex_char_printable: "printable (hex_char d)"
  using hex_char_hex [of d] by (auto simp: printable_def)

lemma json_escape_printable: "x \<in> set (json_escape c) \<Longrightarrow> printable x"
proof -
  assume x: "x \<in> set (json_escape c)"
  have lits: "printable (CHR 0x5C)" "printable (CHR 0x22)" "printable (CHR ''b'')"
    "printable (CHR ''f'')" "printable (CHR ''n'')" "printable (CHR ''r'')"
    "printable (CHR ''t'')" "printable (CHR ''u'')" "printable (CHR ''0'')"
    by (simp_all add: printable_def)
  have self: "32 \<le> (of_char c :: nat) \<and> (of_char c :: nat) \<le> 126 \<Longrightarrow> printable c"
    by (simp add: printable_def)
  from x show ?thesis
    unfolding json_escape_def
    using lits self hex_char_printable [of "of_char c div 16"] hex_char_printable [of "of_char c mod 16"]
    by (auto split: if_splits)
qed

lemma json_escape_plain:
  "32 \<le> (of_char c :: nat) \<Longrightarrow> (of_char c :: nat) \<le> 126 \<Longrightarrow> c \<noteq> CHR 0x22 \<Longrightarrow>
   c \<noteq> CHR 0x5C \<Longrightarrow> json_escape c = [c]"
  by (auto simp: json_escape_def)

lemma index_not_found_line:
  "json_dumps_error (''QuickUMLS index not found at '' @ index_path)
     = [CHR ''{'', CHR 0x22] @ ''error'' @ [CHR 0x22] @ '': '' @ [CHR 0x22]
       @ ''QuickUMLS index not found at /users/isarkar/sarkarcode/_data/quickumls/quickumls_index''
       @ [CHR 0x22] @ ''}''"
  by (simp add: json_dumps_error_def json_string_def index_path_def json_escape_plain)

lemma json_dumps_error_shape:
  "json_dumps_error msg
     = [CHR ''{'', CHR 0x22] @ ''error'' @ [CHR 0x22] @ '': '' @ [CHR 0x22]
       @ concat (map json_escape msg) @ [CHR 0x22] @ ''}''"
  by (simp add: json_dumps_error_def json_string_def json_escape_plain)

lemma json_escape_one_line:
  "CHR 0x0A \<notin> set (concat (map json_escape msg)) \<and> CHR 0x0D \<notin> set (concat (map json_escape msg))"
proof -
  have "printable x" if "x \<in> set (concat (map json_escape msg))" for x
    using that json_escape_printable by auto
  moreover have "\<not> printable (CHR 0x0A)" "\<not> printable (CHR 0x0D)"
    by (simp_all add: printable_def)
  ultimately show ?thesis by blast
qed

lemma main_initialize_ended:
  "initialize_quickumls env = Inl ended \<Longrightarrow> main bs env args = ended"
  by (simp add: main_def)

lemma initialize_index_not_found:
  "quickumls_import env = None \<Longrightarrow> \<not> index_exists env \<Longrightarrow>
   initialize_quickumls env
     = Inl ([Line (json_dumps_error (''QuickUMLS index not found at '' @ index_path))], Exit 1)"
  by (simp add: initialize_quickumls_def)

lemma initialize_import_failed:
  "quickumls_import env = Some e \<Longrightarrow>
   initialize_quickumls env = Inl (initialization_failed e)"
  by (simp add: initialize_quickumls_def)

text \<open>
  C4, as amended. When the index path does not exist and the import of the library
  succeeds or raises an instance of \<^verbatim>\<open>Exception\<close>, \<^verbatim>\<open>main\<close> prints exactly one
  line, the JSON object \<^verbatim>\<open>{"error": "<message>"}\<close> with no line break in it, and exits
  with code 1, whatever the arguments; with a successful import the line is
  \<^verbatim>\<open>{"error": "QuickUMLS index not found at <index path>"}\<close>. An import that raises
  an exception outside \<^verbatim>\<open>Exception\<close> is not caught: nothing is printed and the
  process ends with that exception.
\<close>

theorem missing_index_is_fatal:
  "(\<not> index_exists env \<and> (\<forall>e. quickumls_import env = Some e \<longrightarrow> is_Exception e) \<longrightarrow>
      (\<exists>msg. main bs env args
           = ([Line ([CHR ''{'', CHR 0x22] @ ''error'' @ [CHR 0x22] @ '': '' @ [CHR 0x22]
                      @ concat (map json_escape msg) @ [CHR 0x22] @ ''}'')], Exit 1)
         \<and> CHR 0x0A \<notin> set (concat (map json_escape msg))
         \<and> CHR 0x0D \<notin> set (concat (map json_escape msg))))
   \<and> (\<not> index_exists env \<and> quickumls_import env = None \<longrightarrow>
        main bs env args
          = ([Line ([CHR ''{'', CHR 0x22] @ ''error'' @ [CHR 0x22] @ '': '' @ [CHR 0x22]
               @ ''QuickUMLS index not found at /users/isarkar/sarkarcode/_data/quickumls/quickumls_index''
               @ [CHR 0x22] @ ''}'')], Exit 1))
   \<and> (quickumls_import env = Some e \<and> \<not> is_Exception e \<longrightarrow>
        main bs env args = ([], Uncaught e))"
proof (intro conjI impI)
  assume h: "\<not> index_exists env \<and> (\<forall>e. quickumls_import env = Some e \<longrightarrow> is_Exception e)"
  have "\<exists>msg. main bs env args = ([Line (json_dumps_error msg)], Exit 1)"
  proof (cases "quickumls_import env")
    case None
    with h have "initialize_quickumls env
        = Inl ([Line (json_dumps_error (''QuickUMLS index not found at '' @ index_path))], Exit 1)"
      by (simp add: initialize_index_not_found)
    then have "main bs env args
        = ([Line (json_dumps_error (''QuickUMLS index not found at '' @ index_path))], Exit 1)"
      by (rule main_initialize_ended)
    then show ?thesis ..
  next
    case (Some e')
    with h have "is_Exception e'" by simp
    with Some have "initialize_quickumls env
        = Inl ([Line (json_dumps_error (''QuickUMLS initialization failed: '' @ exc_message e'))],
               Exit 1)"
      by (simp add: initialize_import_failed initialization_failed_def)
    then have "main bs env args
        = ([Line (json_dumps_error (''QuickUMLS initialization failed: '' @ exc_message e'))],
           Exit 1)"
      by (rule main_initialize_ended)
    then show ?thesis ..
  qed
  then obtain msg where "main bs env args = ([Line (json_dumps_error msg)], Exit 1)" ..
  then have "main bs env args
           = ([Line ([CHR ''{'', CHR 0x22] @ ''error'' @ [CHR 0x22] @ '': '' @ [CHR 0x22]
                      @ concat (map json_escape msg) @ [CHR 0x22] @ ''}'')], Exit 1)"
    by (simp only: json_dumps_error_shape)
  with json_escape_one_line [of msg]
  show "\<exists>msg. main bs env args
           = ([Line ([CHR ''{'', CHR 0x22] @ ''error'' @ [CHR 0x22] @ '': '' @ [CHR 0x22]
                      @ concat (map json_escape msg) @ [CHR 0x22] @ ''}'')], Exit 1)
         \<and> CHR 0x0A \<notin> set (concat (map json_escape msg))
         \<and> CHR 0x0D \<notin> set (concat (map json_escape msg))"
    by (intro exI [of _ msg] conjI) (elim conjE, assumption)+
next
  assume h: "\<not> index_exists env \<and> quickumls_import env = None"
  then have "initialize_quickumls env
        = Inl ([Line (json_dumps_error (''QuickUMLS index not found at '' @ index_path))], Exit 1)"
    by (simp add: initialize_index_not_found)
  then have "main bs env args
        = ([Line (json_dumps_error (''QuickUMLS index not found at '' @ index_path))], Exit 1)"
    by (rule main_initialize_ended)
  then show "main bs env args
          = ([Line ([CHR ''{'', CHR 0x22] @ ''error'' @ [CHR 0x22] @ '': '' @ [CHR 0x22]
               @ ''QuickUMLS index not found at /users/isarkar/sarkarcode/_data/quickumls/quickumls_index''
               @ [CHR 0x22] @ ''}'')], Exit 1)"
    by (simp only: index_not_found_line)
next
  assume h: "quickumls_import env = Some e \<and> \<not> is_Exception e"
  then have "initialize_quickumls env = Inl ([], Uncaught e)"
    by (simp add: initialize_import_failed initialization_failed_def)
  then show "main bs env args = ([], Uncaught e)"
    by (rule main_initialize_ended)
qed

text \<open>
  The index is missing: with the library there, with the library not installed, and with
  the import interrupted.
\<close>

theorem missing_index_is_fatal_witness:
  "\<not> index_exists no_index_env \<and> quickumls_import no_index_env = None
   \<and> main sample_str no_index_env (sample_args\<lparr>opt_term := Some ''fever''\<rparr>)
       = ([Line ([CHR ''{'', CHR 0x22] @ ''error'' @ [CHR 0x22] @ '': '' @ [CHR 0x22]
            @ ''QuickUMLS index not found at /users/isarkar/sarkarcode/_data/quickumls/quickumls_index''
            @ [CHR 0x22] @ ''}'')], Exit 1)
   \<and> main sample_str no_index_env (sample_args\<lparr>opt_batch_file := Some ''terms.txt''\<rparr>)
       = ([Line ([CHR ''{'', CHR 0x22] @ ''error'' @ [CHR 0x22] @ '': '' @ [CHR 0x22]
            @ ''QuickUMLS index not found at /users/isarkar/sarkarcode/_data/quickumls/quickumls_index''
            @ [CHR 0x22] @ ''}'')], Exit 1)
   \<and> \<not> index_exists unimportable_env
   \<and> quickumls_import unimportable_env
       = Some (PyException ''ModuleNotFoundError'' ''No module named quickumls'')
   \<and> is_Exception (PyException ''ModuleNotFoundError'' ''No module named quickumls'')
   \<and> main sample_str unimportable_env (sample_args\<lparr>opt_term := Some ''fever''\<rparr>)
       = ([Line ([CHR ''{'', CHR 0x22] @ ''error'' @ [CHR 0x22] @ '': '' @ [CHR 0x22]
            @ ''QuickUMLS initialization failed: No module named quickumls''
            @ [CHR 0x22] @ ''}'')], Exit 1)
   \<and> quickumls_import interrupted_env = Some (PyBaseException ''KeyboardInterrupt'' [])
   \<and> \<not> is_Exception (PyBaseException ''KeyboardInterrupt'' [])
   \<and> main sample_str interrupted_env sample_args
       = ([], Uncaught (PyBaseException ''KeyboardInterrupt'' []))"
proof -
  let ?term_args = "sample_args\<lparr>opt_term := Some ''fever''\<rparr>"
  let ?file_args = "sample_args\<lparr>opt_batch_file := Some ''terms.txt''\<rparr>"
  let ?missing = "PyException ''ModuleNotFoundError'' ''No module named quickumls''"
  let ?interrupt = "PyBaseException ''KeyboardInterrupt'' []"
  have env1: "\<not> index_exists no_index_env" "quickumls_import no_index_env = None"
    by (simp_all add: no_index_env_def sample_env_def)
  have env2: "\<not> index_exists unimportable_env" "quickumls_import unimportable_env = Some ?missing"
    by (simp_all add: unimportable_env_def no_index_env_def)
  have env3: "quickumls_import interrupted_env = Some ?interrupt"
    by (simp add: interrupted_env_def)
  have run2: "main sample_str unimportable_env ?term_args
       = ([Line ([CHR ''{'', CHR 0x22] @ ''error'' @ [CHR 0x22] @ '': '' @ [CHR 0x22]
            @ ''QuickUMLS initialization failed: No module named quickumls''
            @ [CHR 0x22] @ ''}'')], Exit 1)"
    by (simp add: main_def initialize_quickumls_def initialization_failed_def env2
          json_dumps_error_shape json_escape_plain)
  from missing_index_is_fatal [of no_index_env sample_str ?term_args ?interrupt]
    missing_index_is_fatal [of no_index_env sample_str ?file_args ?interrupt]
    missing_index_is_fatal [of unimportable_env sample_str ?term_args ?interrupt]
    missing_index_is_fatal [of interrupted_env sample_str sample_args ?interrupt]
    env1 env2 env3 run2
  show ?thesis by simp
qed

text \<open>
  C4 as stated fails when the import is interrupted: the index is missing, and the process
  prints no JSON object and ends with the \<^verbatim>\<open>KeyboardInterrupt\<close>.
\<close>

theorem interrupted_import_counterexample:
  "\<not> index_exists interrupted_env
   \<and> main sample_str interrupted_env (sample_args\<lparr>opt_term := Some ''fever''\<rparr>)
       = ([], Uncaught (PyBaseException ''KeyboardInterrupt'' []))"
  by (simp add: main_def initialize_quickumls_def initialization_failed_def interrupted_env_def
        no_index_env_def)

subsection \<open>Trimming\<close>

lemma strip_prefix: "\<exists>w. dropWhile py_isspace s = strip s @ w"
proof -
  let ?u = "dropWhile py_isspace s"
  have "strip s @ rev (takeWhile py_isspace (rev ?u))
        = rev (takeWhile py_isspace (rev ?u) @ dropWhile py_isspace (rev ?u))"
    by (simp only: strip_def rev_append)
  also have "\<dots> = rev (rev ?u)"
    by (simp only: takeWhile_dropWhile_id)
  also have "\<dots> = ?u" by simp
  finally have "?u = strip s @ rev (takeWhile py_isspace (rev ?u))" by (rule sym)
  then show ?thesis ..
qed

lemma comprehension_as_filter:
  "[f x. x \<leftarrow> xs, f x \<noteq> []] = filter (\<lambda>t. t \<noteq> []) (map f xs)"
  by (induction xs) simp_all

lemma strip_hd: "strip s \<noteq> [] \<Longrightarrow> \<not> py_isspace (hd (strip s))"
proof -
  assume ne: "strip s \<noteq> []"
  obtain w where w: "dropWhile py_isspace s = strip s @ w"
    using strip_prefix by blast
  with ne have "dropWhile py_isspace s \<noteq> []" by simp
  then have "\<not> py_isspace (hd (dropWhile py_isspace s))" by (rule hd_dropWhile)
  with w ne show ?thesis by simp
qed

lemma strip_last: "strip s \<noteq> [] \<Longrightarrow> \<not> py_isspace (last (strip s))"
proof -
  assume ne: "strip s \<noteq> []"
  let ?v = "dropWhile py_isspace (rev (dropWhile py_isspace s))"
  from ne have v: "?v \<noteq> []" by (simp add: strip_def)
  then have "\<not> py_isspace (hd ?v)" by (rule hd_dropWhile)
  moreover have "last (strip s) = hd ?v"
    using v by (simp add: strip_def last_rev)
  ultimately show ?thesis by simp
qed

lemma read_terms_member:
  "t \<in> set (read_terms content) \<Longrightarrow> t \<noteq> [] \<and> (\<exists>line \<in> set (file_lines content). t = strip line)"
  by (auto simp: read_terms_def)

lemma main_batch_file:
  "initialize_quickumls env = Inr m \<Longrightarrow> opt_batch_file args = Some path \<Longrightarrow> path \<noteq> [] \<Longrightarrow>
   open_file env path = Inr content \<Longrightarrow>
   main bs env args =
     (case batch_query_quickumls bs m (read_terms content) of
        Inl e \<Rightarrow> ([], Uncaught e)
      | Inr out \<Rightarrow> ([JsonBatch out], Exit 0))"
  by (simp add: main_def given_def)

text \<open>
  C7. The terms of a batch file are its lines, each trimmed, without those that are empty
  after trimming, in file order; a term is not empty and neither starts nor ends with
  white space. The file \<^verbatim>\<open>"fever\n\n headache \n"\<close> gives the two terms
  \<^verbatim>\<open>fever\<close> and \<^verbatim>\<open>headache\<close>, and batch-file mode runs the batch on the terms
  read.
\<close>

theorem batch_file_terms:
  "read_terms content = filter (\<lambda>t. t \<noteq> []) (map strip (file_lines content))
   \<and> (\<forall>t \<in> set (read_terms content).
        t \<noteq> [] \<and> \<not> py_isspace (hd t) \<and> \<not> py_isspace (last t))
   \<and> read_terms (''fever'' @ [CHR 0x0A, CHR 0x0A] @ '' headache '' @ [CHR 0x0A])
       = [''fever'', ''headache'']
   \<and> (initialize_quickumls env = Inr m \<and> opt_batch_file args = Some path \<and> path \<noteq> []
        \<and> open_file env path = Inr content \<longrightarrow>
      main bs env args =
        (case batch_query_quickumls bs m (read_terms content) of
           Inl e \<Rightarrow> ([], Uncaught e)
         | Inr out \<Rightarrow> ([JsonBatch out], Exit 0)))"
proof (intro conjI impI)
  show "read_terms content = filter (\<lambda>t. t \<noteq> []) (map strip (file_lines content))"
    unfolding read_terms_def by (rule comprehension_as_filter)
  show "\<forall>t \<in> set (read_terms content).
        t \<noteq> [] \<and> \<not> py_isspace (hd t) \<and> \<not> py_isspace (last t)"
    using read_terms_member strip_hd strip_last by blast
  show "read_terms (''fever'' @ [CHR 0x0A, CHR 0x0A] @ '' headache '' @ [CHR 0x0A])
       = [''fever'', ''headache'']"
    by (simp add: read_terms_def file_lines_def strip_def py_isspace_def)
  show "main bs env args =
        (case batch_query_quickumls bs m (read_terms content) of
           Inl e \<Rightarrow> ([], Uncaught e)
         | Inr out \<Rightarrow> ([JsonBatch out], Exit 0))"
    if "initialize_quickumls env = Inr m \<and> opt_batch_file args = Some path \<and> path \<noteq> []
        \<and> open_file env path = Inr content"
    using that by (intro main_batch_file) (elim conjE, assumption)+
qed

text \<open>
  The sample environment, whose file \<^verbatim>\<open>terms.txt\<close> is that file.
\<close>

theorem batch_file_terms_witness:
  "read_terms sample_file = [''fever'', ''headache'']
   \<and> ''headache'' \<in> set (read_terms sample_file)
   \<and> \<not> py_isspace (hd ''headache'') \<and> \<not> py_isspace (last ''headache'')
   \<and> initialize_quickumls sample_env = Inr sample_matcher
   \<and> opt_batch_file (sample_args\<lparr>opt_batch_file := Some ''terms.txt''\<rparr>) = Some ''terms.txt''
   \<and> open_file sample_env ''terms.txt'' = Inr sample_file
   \<and> main sample_str sample_env (sample_args\<lparr>opt_batch_file := Some ''terms.txt''\<rparr>)
       = ([JsonBatch (BatchResults
            [(''fever'', fever_results),
             (''headache'',
              [ErrorRecord (''QuickUMLS query failed: '' @ [CHR 0x27] @ ''NoneType'' @ [CHR 0x27]
                              @ '' object is not iterable'')])])],
          Exit 0)"
proof -
  note claim = batch_file_terms [of sample_file sample_env sample_matcher
        "sample_args\<lparr>opt_batch_file := Some ''terms.txt''\<rparr>" "''terms.txt''" sample_str]
  have terms: "read_terms sample_file = [''fever'', ''headache'']"
    using claim unfolding sample_file_def by (elim conjE)
  have member: "''headache'' \<in> set (read_terms sample_file)"
    by (simp only: terms) simp
  have clean: "\<forall>t \<in> set (read_terms sample_file).
        t \<noteq> [] \<and> \<not> py_isspace (hd t) \<and> \<not> py_isspace (last t)"
    using claim by (elim conjE)
  from clean member
  have space: "''headache'' \<noteq> [] \<and> \<not> py_isspace (hd ''headache'') \<and> \<not> py_isspace (last ''headache'')"
    by (rule bspec)
  have arg: "opt_batch_file (sample_args\<lparr>opt_batch_file := Some ''terms.txt''\<rparr>) = Some ''terms.txt''"
    by simp
  have path: "''terms.txt'' \<noteq> []" by simp
  have readable: "open_file sample_env ''terms.txt'' = Inr sample_file"
    by (simp add: sample_env_def)
  have step: "initialize_quickumls sample_env = Inr sample_matcher
      \<and> opt_batch_file (sample_args\<lparr>opt_batch_file := Some ''terms.txt''\<rparr>) = Some ''terms.txt''
      \<and> ''terms.txt'' \<noteq> [] \<and> open_file sample_env ''terms.txt'' = Inr sample_file \<longrightarrow>
      main sample_str sample_env (sample_args\<lparr>opt_batch_file := Some ''terms.txt''\<rparr>)
       = (case batch_query_quickumls sample_str sample_matcher (read_terms sample_file) of
            Inl e \<Rightarrow> ([], Uncaught e)
          | Inr out \<Rightarrow> ([JsonBatch out], Exit 0))"
    using claim by (elim conjE)
  have run: "main sample_str sample_env (sample_args\<lparr>opt_batch_file := Some ''terms.txt''\<rparr>)
       = (case batch_query_quickumls sample_str sample_matcher (read_terms sample_file) of
            Inl e \<Rightarrow> ([], Uncaught e)
          | Inr out \<Rightarrow> ([JsonBatch out], Exit 0))"
    by (rule mp [OF step]) (intro conjI sample_initialize arg path readable)
  have batch: "batch_query_quickumls sample_str sample_matcher [''fever'', ''headache'']
       = Inr (BatchResults
            [(''fever'', fever_results),
             (''headache'',
              [ErrorRecord (''QuickUMLS query failed: '' @ [CHR 0x27] @ ''NoneType'' @ [CHR 0x27]
                              @ '' object is not iterable'')])])"
    by (simp add: batch_query_unfold sample_fever sample_headache)
  have printed: "main sample_str sample_env (sample_args\<lparr>opt_batch_file := Some ''terms.txt''\<rparr>)
       = ([JsonBatch (BatchResults
            [(''fever'', fever_results),
             (''headache'',
              [ErrorRecord (''QuickUMLS query failed: '' @ [CHR 0x27] @ ''NoneType'' @ [CHR 0x27]
                              @ '' object is not iterable'')])])],
          Exit 0)"
    unfolding run terms batch by simp
  show ?thesis
    by (intro conjI terms member conjunct1 [OF conjunct2 [OF space]]
          conjunct2 [OF conjunct2 [OF space]] sample_initialize arg readable printed)
qed

subsection \<open>Simple output\<close>

lemma format_3f_shape:
  "\<exists>whole frac. format_3f x = whole @ ''.'' @ frac \<and> CHR ''.'' \<notin> set whole \<and> length frac = 3
      \<and> set frac \<subseteq> set ''0123456789''"
proof -
  define n where "n = nat (round_half_even (\<bar>x\<bar> * 1000))"
  define whole where "whole = (if x < 0 then ''-'' else []) @ decimal (n div 1000)"
  define frac where
    "frac = [digit_char (n div 100 mod 10), digit_char (n div 10 mod 10), digit_char (n mod 10)]"
  have eq: "format_3f x = whole @ ''.'' @ frac"
    by (simp add: format_3f_def Let_def n_def whole_def frac_def)
  have point: "CHR ''.'' \<notin> set whole"
    using decimal_no_point [of "n div 1000"] by (simp add: whole_def)
  have len: "length frac = 3" by (simp add: frac_def)
  have digits: "set frac \<subseteq> set ''0123456789''"
    using digit_char_digit [of "n div 100 mod 10"] digit_char_digit [of "n div 10 mod 10"]
      digit_char_digit [of "n mod 10"]
    unfolding frac_def by (simp only: set_simps insert_subset empty_subsetI simp_thms)
  show ?thesis
    by (intro exI [of _ whole] exI [of _ frac] conjI eq point len digits)
qed

lemma digit_not_newline: "c \<in> set ''0123456789'' \<Longrightarrow> c \<noteq> CHR 0x0A"
  by auto

lemma decimal_one_line: "CHR 0x0A \<notin> set (decimal n)"
  using decimal_digits [of n] digit_not_newline by blast

lemma digit_char_one_line: "digit_char d \<noteq> CHR 0x0A"
  using digit_char_digit [of d] by (rule digit_not_newline)

lemma format_3f_one_line: "CHR 0x0A \<notin> set (format_3f x)"
  using decimal_one_line digit_char_one_line [symmetric]
  by (simp add: format_3f_def Let_def)

lemma simple_lines_count:
  "length (concat (map (simple_lines bs) results))
     = 4 * length (filter (\<lambda>r. \<not> has_error_key r) results)"
proof (induction results)
  case Nil
  then show ?case by simp
next
  case (Cons r rs)
  then show ?case by (cases r) simp_all
qed

lemma main_simple:
  "initialize_quickumls env = Inr m \<Longrightarrow> \<not> given (opt_batch_file args) \<Longrightarrow>
   \<not> given (opt_batch_terms args) \<Longrightarrow> opt_term args = Some t \<Longrightarrow> t \<noteq> [] \<Longrightarrow>
   opt_output args = Simple \<Longrightarrow>
   main bs env args =
     (case query_quickumls bs m t of
        Inl e \<Rightarrow> ([], Uncaught e)
      | Inr results \<Rightarrow> (map Line (concat (map (simple_lines bs) results)), Exit 0))"
  by (simp add: main_def given_def split: sum.splits)

lemma simple_lines_one_line:
  assumes "CHR 0x0A \<notin> set (py_str bs (cui r))"
    and "CHR 0x0A \<notin> set (py_str bs (preferred_name r))"
  shows "\<forall>l \<in> set (simple_lines bs (Match r)). CHR 0x0A \<notin> set l"
  using assms format_3f_one_line [of "similarity r"] by simp

lemma simple_lines_errors:
  "\<forall>r \<in> set results. has_error_key r \<Longrightarrow> concat (map (simple_lines bs) results) = []"
proof (induction results)
  case Nil
  then show ?case by simp
next
  case (Cons r rs)
  then show ?case by (cases r) simp_all
qed

text \<open>
  C8. In simple output mode each match record is printed by four calls of
  \<^verbatim>\<open>print\<close>: the lines \<^verbatim>\<open>CUI:\<close>, \<^verbatim>\<open>Preferred:\<close> and
  \<^verbatim>\<open>Similarity:\<close>, then the separator \<^verbatim>\<open>---\<close>. The similarity is written
  with one decimal point followed by exactly three digits. A printed text holds no line
  break when the identifier and the name hold none; the output has four lines for each
  record without an error key, and it is all the single-term simple mode prints for the
  list the lookup returns.
\<close>

theorem simple_output_lines:
  "simple_lines bs (Match r)
     = [''CUI: '' @ py_str bs (cui r), ''Preferred: '' @ py_str bs (preferred_name r),
        ''Similarity: '' @ format_3f (similarity r), ''---'']
   \<and> (\<exists>whole frac. format_3f x = whole @ ''.'' @ frac \<and> CHR ''.'' \<notin> set whole
         \<and> length frac = 3 \<and> set frac \<subseteq> set ''0123456789'')
   \<and> (CHR 0x0A \<notin> set (py_str bs (cui r)) \<and> CHR 0x0A \<notin> set (py_str bs (preferred_name r)) \<longrightarrow>
        (\<forall>l \<in> set (simple_lines bs (Match r)). CHR 0x0A \<notin> set l))
   \<and> length (concat (map (simple_lines bs) results))
        = 4 * length (filter (\<lambda>r. \<not> has_error_key r) results)
   \<and> (initialize_quickumls env = Inr m \<and> \<not> given (opt_batch_file args)
        \<and> \<not> given (opt_batch_terms args) \<and> opt_term args = Some t \<and> t \<noteq> []
        \<and> opt_output args = Simple \<longrightarrow>
      main bs env args =
        (case query_quickumls bs m t of
           Inl e \<Rightarrow> ([], Uncaught e)
         | Inr found \<Rightarrow> (map Line (concat (map (simple_lines bs) found)), Exit 0)))"
proof (intro conjI impI)
  show "simple_lines bs (Match r)
     = [''CUI: '' @ py_str bs (cui r), ''Preferred: '' @ py_str bs (preferred_name r),
        ''Similarity: '' @ format_3f (similarity r), ''---'']"
    by (simp only: simple_lines.simps)
  show "\<exists>whole frac. format_3f x = whole @ ''.'' @ frac \<and> CHR ''.'' \<notin> set whole
         \<and> length frac = 3 \<and> set frac \<subseteq> set ''0123456789''"
    by (rule format_3f_shape)
  show "\<forall>l \<in> set (simple_lines bs (Match r)). CHR 0x0A \<notin> set l"
    if "CHR 0x0A \<notin> set (py_str bs (cui r)) \<and> CHR 0x0A \<notin> set (py_str bs (preferred_name r))"
    using that by (intro simple_lines_one_line) (elim conjE, assumption)+
  show "length (concat (map (simple_lines bs) results))
        = 4 * length (filter (\<lambda>r. \<not> has_error_key r) results)"
    by (rule simple_lines_count)
  show "main bs env args =
        (case query_quickumls bs m t of
           Inl e \<Rightarrow> ([], Uncaught e)
         | Inr found \<Rightarrow> (map Line (concat (map (simple_lines bs) found)), Exit 0))"
    if "initialize_quickumls env = Inr m \<and> \<not> given (opt_batch_file args)
        \<and> \<not> given (opt_batch_terms args) \<and> opt_term args = Some t \<and> t \<noteq> []
        \<and> opt_output args = Simple"
    using that by (intro main_simple) (elim conjE, assumption)+
qed

text \<open>
  The three best candidates of \<^verbatim>\<open>fever\<close>, and a tie that rounds to the even digit.
\<close>

theorem simple_output_lines_witness:
  "initialize_quickumls sample_env = Inr sample_matcher
   \<and> main sample_str sample_env (sample_args\<lparr>opt_term := Some ''fever'', opt_output := Simple\<rparr>)
     = ([Line ''CUI: C0424755'', Line ''Preferred: Fever symptoms'', Line ''Similarity: 1.000'',
         Line ''---'',
         Line ''CUI: C0743841'', Line ''Preferred: fever'', Line ''Similarity: 0.900'',
         Line ''---'',
         Line ''CUI: C0015967'', Line ''Preferred: fever'', Line ''Similarity: 0.800'',
         Line ''---''], Exit 0)
   \<and> format_3f (1 / 16) = ''0.062''
   \<and> CHR 0x0A \<notin> set (py_str sample_str (PyStr ''C0424755''))
   \<and> CHR 0x0A \<notin> set (py_str sample_str (PyStr ''Fever symptoms''))
   \<and> CHR 0x0A \<notin> set (''Similarity: '' @ format_3f 1)"
proof -
  let ?args = "sample_args\<lparr>opt_term := Some ''fever'', opt_output := Simple\<rparr>"
  let ?r = "\<lparr>cui = PyStr ''C0424755'', preferred_name = PyStr ''Fever symptoms'',
                similarity = 1, semtypes = [PyStr ''T184''], method_tag = ''quickumls''\<rparr>"
  note claim = simple_output_lines [where bs = sample_str and env = sample_env
      and m = sample_matcher and args = ?args and t = "''fever''" and x = "1 / 16"
      and results = "[]" and r = ?r]
  have mode: "\<not> given (opt_batch_file ?args) \<and> \<not> given (opt_batch_terms ?args)
      \<and> opt_term ?args = Some ''fever'' \<and> ''fever'' \<noteq> [] \<and> opt_output ?args = Simple"
    by (simp add: sample_args_def given_def)
  have step: "initialize_quickumls sample_env = Inr sample_matcher
      \<and> \<not> given (opt_batch_file ?args) \<and> \<not> given (opt_batch_terms ?args)
      \<and> opt_term ?args = Some ''fever'' \<and> ''fever'' \<noteq> [] \<and> opt_output ?args = Simple \<longrightarrow>
      main sample_str sample_env ?args
        = (case query_quickumls sample_str sample_matcher ''fever'' of
             Inl e \<Rightarrow> ([], Uncaught e)
           | Inr found \<Rightarrow> (map Line (concat (map (simple_lines sample_str) found)), Exit 0))"
    using claim by (elim conjE)
  have run: "main sample_str sample_env ?args
        = (case query_quickumls sample_str sample_matcher ''fever'' of
             Inl e \<Rightarrow> ([], Uncaught e)
           | Inr found \<Rightarrow> (map Line (concat (map (simple_lines sample_str) found)), Exit 0))"
    by (rule mp [OF step]) (intro conjI sample_initialize mode [THEN conjunct1]
          mode [THEN conjunct2, THEN conjunct1] mode [THEN conjunct2, THEN conjunct2])
  have f1: "format_3f 1 = ''1.000''"
    by (simp add: format_3f_def round_half_even_def decimal.simps digit_char_def)
  have f2: "format_3f (9 / 10) = ''0.900''"
    by (simp add: format_3f_def round_half_even_def decimal.simps digit_char_def)
  have f3: "format_3f (4 / 5) = ''0.800''"
    by (simp add: format_3f_def round_half_even_def decimal.simps digit_char_def)
  have f4: "format_3f (1 / 16) = ''0.062''"
    by code_simp
  have printed: "main sample_str sample_env ?args
     = ([Line ''CUI: C0424755'', Line ''Preferred: Fever symptoms'', Line ''Similarity: 1.000'',
         Line ''---'',
         Line ''CUI: C0743841'', Line ''Preferred: fever'', Line ''Similarity: 0.900'',
         Line ''---'',
         Line ''CUI: C0015967'', Line ''Preferred: fever'', Line ''Similarity: 0.800'',
         Line ''---''], Exit 0)"
    unfolding run sample_fever by (simp add: fever_results_def f1 f2 f3)
  have clean: "CHR 0x0A \<notin> set (py_str sample_str (cui ?r))
      \<and> CHR 0x0A \<notin> set (py_str sample_str (preferred_name ?r))"
    by simp
  have one_line: "CHR 0x0A \<notin> set (py_str sample_str (cui ?r))
      \<and> CHR 0x0A \<notin> set (py_str sample_str (preferred_name ?r)) \<longrightarrow>
      (\<forall>l \<in> set (simple_lines sample_str (Match ?r)). CHR 0x0A \<notin> set l)"
    using claim by (elim conjE)
  have every: "\<forall>l \<in> set (simple_lines sample_str (Match ?r)). CHR 0x0A \<notin> set l"
    by (rule mp [OF one_line clean])
  have third: "''Similarity: '' @ format_3f 1 \<in> set (simple_lines sample_str (Match ?r))"
    by simp
  have score: "CHR 0x0A \<notin> set (''Similarity: '' @ format_3f 1)"
    by (rule bspec [OF every third])
  have ids: "CHR 0x0A \<notin> set (py_str sample_str (PyStr ''C0424755''))"
      "CHR 0x0A \<notin> set (py_str sample_str (PyStr ''Fever symptoms''))"
    by simp_all
  show ?thesis by (intro conjI sample_initialize printed f4 ids score)
qed

subsection \<open>Failures at the command line\<close>

lemma main_simple_failed:
  assumes "initialize_quickumls env = Inr m" "\<not> given (opt_batch_file args)"
    "\<not> given (opt_batch_terms args)" "opt_term args = Some t" "t \<noteq> []"
    "opt_output args = Simple" "query_quickumls bs m t = Inr [ErrorRecord msg]"
  shows "main bs env args = ([], Exit 0)"
proof -
  have "main bs env args =
     (case query_quickumls bs m t of
        Inl e \<Rightarrow> ([], Uncaught e)
      | Inr results \<Rightarrow> (map Line (concat (map (simple_lines bs) results)), Exit 0))"
    using assms(1-6) by (rule main_simple)
  then show ?thesis by (simp add: assms(7))
qed

text \<open>
  C9. In simple output mode a record with an error key prints nothing: a result list of
  such records gives no line, and a single-term run whose lookup failed prints nothing
  and exits with code 0.
\<close>

theorem simple_mode_hides_errors:
  "simple_lines bs (ErrorRecord msg) = []
   \<and> ((\<forall>r \<in> set results. has_error_key r) \<longrightarrow> concat (map (simple_lines bs) results) = [])
   \<and> (initialize_quickumls env = Inr m \<and> \<not> given (opt_batch_file args)
        \<and> \<not> given (opt_batch_terms args) \<and> opt_term args = Some t \<and> t \<noteq> []
        \<and> opt_output args = Simple \<and> query_quickumls bs m t = Inr [ErrorRecord msg] \<longrightarrow>
      main bs env args = ([], Exit 0))"
proof (intro conjI impI)
  show "simple_lines bs (ErrorRecord msg) = []"
    by (simp only: simple_lines.simps)
  show "concat (map (simple_lines bs) results) = []" if "\<forall>r \<in> set results. has_error_key r"
    using that by (rule simple_lines_errors)
  show "main bs env args = ([], Exit 0)"
    if "initialize_quickumls env = Inr m \<and> \<not> given (opt_batch_file args)
        \<and> \<not> given (opt_batch_terms args) \<and> opt_term args = Some t \<and> t \<noteq> []
        \<and> opt_output args = Simple \<and> query_quickumls bs m t = Inr [ErrorRecord msg]"
    using that by (intro main_simple_failed) (elim conjE, assumption)+
qed

text \<open>
  The matcher raises for \<^verbatim>\<open>ague\<close>.
\<close>

theorem simple_mode_hides_errors_witness:
  "initialize_quickumls sample_env = Inr sample_matcher
   \<and> query_quickumls sample_str sample_matcher ''ague''
       = Inr [ErrorRecord ''QuickUMLS query failed: bad input'']
   \<and> has_error_key (ErrorRecord ''QuickUMLS query failed: bad input'')
   \<and> concat (map (simple_lines sample_str) [ErrorRecord ''QuickUMLS query failed: bad input'']) = []
   \<and> main sample_str sample_env (sample_args\<lparr>opt_term := Some ''ague'', opt_output := Simple\<rparr>)
       = ([], Exit 0)"
proof -
  let ?args = "sample_args\<lparr>opt_term := Some ''ague'', opt_output := Simple\<rparr>"
  let ?msg = "''QuickUMLS query failed: bad input''"
  note claim = simple_mode_hides_errors [where bs = sample_str and env = sample_env
      and m = sample_matcher and args = ?args and t = "''ague''" and msg = ?msg
      and results = "[ErrorRecord ?msg]"]
  have key: "has_error_key (ErrorRecord ?msg)" by simp
  have all: "\<forall>r \<in> set [ErrorRecord ?msg]. has_error_key r" by simp
  have quiet: "(\<forall>r \<in> set [ErrorRecord ?msg]. has_error_key r) \<longrightarrow>
      concat (map (simple_lines sample_str) [ErrorRecord ?msg]) = []"
    using claim by (elim conjE)
  have silent: "concat (map (simple_lines sample_str) [ErrorRecord ?msg]) = []"
    by (rule mp [OF quiet all])
  have mode: "\<not> given (opt_batch_file ?args)" "\<not> given (opt_batch_terms ?args)"
      "opt_term ?args = Some ''ague''" "''ague'' \<noteq> []" "opt_output ?args = Simple"
    by (simp_all add: sample_args_def given_def)
  have step: "initialize_quickumls sample_env = Inr sample_matcher
      \<and> \<not> given (opt_batch_file ?args) \<and> \<not> given (opt_batch_terms ?args)
      \<and> opt_term ?args = Some ''ague'' \<and> ''ague'' \<noteq> [] \<and> opt_output ?args = Simple
      \<and> query_quickumls sample_str sample_matcher ''ague'' = Inr [ErrorRecord ?msg] \<longrightarrow>
      main sample_str sample_env ?args = ([], Exit 0)"
    using claim by (elim conjE)
  have run: "main sample_str sample_env ?args = ([], Exit 0)"
    by (rule mp [OF step]) (intro conjI sample_initialize mode sample_ague)
  from sample_initialize sample_ague key silent run show ?thesis by (simp only: simp_thms)
qed

lemma main_unreadable_batch_file:
  "initialize_quickumls env = Inr m \<Longrightarrow> opt_batch_file args = Some path \<Longrightarrow> path \<noteq> [] \<Longrightarrow>
   open_file env path = Inl e \<Longrightarrow> main bs env args = ([], Uncaught e)"
  by (simp add: main_def given_def)

text \<open>
  C10, as amended. When initialisation succeeded and the non-empty path given to
  \<^verbatim>\<open>--batch-file\<close> cannot be opened, no handler catches the exception: the process
  prints nothing, and so no JSON object with an error key, and ends with the uncaught
  error.
\<close>

theorem batch_file_error_uncaught:
  "initialize_quickumls env = Inr m \<and> opt_batch_file args = Some path \<and> path \<noteq> []
     \<and> open_file env path = Inl e \<longrightarrow>
   main bs env args = ([], Uncaught e)"
proof
  assume "initialize_quickumls env = Inr m \<and> opt_batch_file args = Some path \<and> path \<noteq> []
     \<and> open_file env path = Inl e"
  then show "main bs env args = ([], Uncaught e)"
    by (intro main_unreadable_batch_file) (elim conjE, assumption)+
qed

text \<open>
  A file that is not there.
\<close>

theorem batch_file_error_uncaught_witness:
  "initialize_quickumls sample_env = Inr sample_matcher
   \<and> opt_batch_file (sample_args\<lparr>opt_batch_file := Some ''missing.txt''\<rparr>) = Some ''missing.txt''
   \<and> ''missing.txt'' \<noteq> []
   \<and> open_file sample_env ''missing.txt''
       = Inl (PyException ''FileNotFoundError'' ''[Errno 2] No such file or directory'')
   \<and> main sample_str sample_env (sample_args\<lparr>opt_batch_file := Some ''missing.txt''\<rparr>)
       = ([], Uncaught (PyException ''FileNotFoundError'' ''[Errno 2] No such file or directory''))"
proof -
  let ?e = "PyException ''FileNotFoundError'' ''[Errno 2] No such file or directory''"
  let ?args = "sample_args\<lparr>opt_batch_file := Some ''missing.txt''\<rparr>"
  have arg: "opt_batch_file ?args = Some ''missing.txt''" by simp
  have path: "''missing.txt'' \<noteq> []" by simp
  have unreadable: "open_file sample_env ''missing.txt'' = Inl ?e"
    by (simp add: sample_env_def)
  have run: "main sample_str sample_env ?args = ([], Uncaught ?e)"
    by (rule mp [OF batch_file_error_uncaught [of sample_env sample_matcher ?args
            "''missing.txt''" ?e sample_str]])
       (intro conjI sample_initialize arg path unreadable)
  show ?thesis by (intro conjI sample_initialize arg path unreadable run)
qed

text \<open>
  C10 as stated fails twice. With the index missing, a batch file that cannot be opened
  is never opened: the process prints the JSON error object of the initialisation and
  exits with code 1. And the batch file is not the only failure that emits no JSON object
  with an error key: without an input mode the process prints a plain line and exits with
  code 1.
\<close>

theorem batch_file_claim_counterexample:
  "opt_batch_file (sample_args\<lparr>opt_batch_file := Some ''missing.txt''\<rparr>) = Some ''missing.txt''
   \<and> open_file no_index_env ''missing.txt''
       = Inl (PyException ''FileNotFoundError'' ''[Errno 2] No such file or directory'')
   \<and> main sample_str no_index_env (sample_args\<lparr>opt_batch_file := Some ''missing.txt''\<rparr>)
       = ([Line ([CHR ''{'', CHR 0x22] @ ''error'' @ [CHR 0x22] @ '': '' @ [CHR 0x22]
            @ ''QuickUMLS index not found at /users/isarkar/sarkarcode/_data/quickumls/quickumls_index''
            @ [CHR 0x22] @ ''}'')], Exit 1)
   \<and> main sample_str sample_env sample_args
       = ([Line ''Error: Must provide either --term, --batch-file, or --batch-terms''], Exit 1)"
proof -
  have init: "initialize_quickumls no_index_env
     = Inl ([Line (json_dumps_error (''QuickUMLS index not found at '' @ index_path))], Exit 1)"
    by (rule initialize_index_not_found) (simp_all add: no_index_env_def sample_env_def)
  have first: "main sample_str no_index_env (sample_args\<lparr>opt_batch_file := Some ''missing.txt''\<rparr>)
       = ([Line ([CHR ''{'', CHR 0x22] @ ''error'' @ [CHR 0x22] @ '': '' @ [CHR 0x22]
            @ ''QuickUMLS index not found at /users/isarkar/sarkarcode/_data/quickumls/quickumls_index''
            @ [CHR 0x22] @ ''}'')], Exit 1)"
    using main_initialize_ended [OF init] by (simp only: index_not_found_line)
  have second: "main sample_str sample_env sample_args
       = ([Line ''Error: Must provide either --term, --batch-file, or --batch-terms''], Exit 1)"
    by (simp add: main_def sample_initialize sample_args_def given_def usage_error_def)
  have unreadable: "open_file no_index_env ''missing.txt''
       = Inl (PyException ''FileNotFoundError'' ''[Errno 2] No such file or directory'')"
    by (simp add: no_index_env_def sample_env_def)
  have arg: "opt_batch_file (sample_args\<lparr>opt_batch_file := Some ''missing.txt''\<rparr>)
      = Some ''missing.txt''"
    by simp
  show ?thesis by (intro conjI arg unreadable first second)
qed

end
